theory Spec2Isabelle
  imports Main
begin

section \<open>Invoice extractor worker: authentication and trial gate\<close>

text \<open>
  A shallow embedding of \<^verbatim>\<open>src/worker.ts\<close> (login, logout, session store, trial
  cookie, the guard in front of \<^verbatim>\<open>/api/extract\<close>, the router) and of the record that
  \<^verbatim>\<open>tools/make-user.mjs\<close> prints.

  Conventions.
  \<^item> A JavaScript string is a \<open>string\<close>: one \<open>char\<close> per code unit, code units
    \<open>0..255\<close> only. Binary strings (the argument of \<^verbatim>\<open>btoa\<close>, the result of
    \<^verbatim>\<open>atob\<close>) are strings of that kind in JavaScript as well.
  \<^item> A finite Number with an integral value is an \<open>int\<close>; \<open>-0\<close> is \<open>0\<close>. The
    values that are not finite are the other constructors of \<open>number\<close>.
  \<^item> An exception is a value \<open>Exn name message\<close>; a function that can throw returns
    \<open>exn + 'a\<close>, with \<open>Inl\<close> for the throw.
  \<^item> What the runtime provides and the repository does not define (percent decoding,
    key derivation, date parsing, the outbound HTTP call, the exceptions that the
    runtime throws) is a field of the record \<open>platform\<close>, passed to every function
    that reaches it.
\<close>

subsection \<open>Exceptions, numbers, the runtime\<close>

datatype exn = Exn (name: string) (message: string)

datatype number = Num int | NaN | PosInf | NegInf

datatype form_value = FString string | FFile

text \<open>A part of the message sent to the extraction API: a text or an image.\<close>

datatype content_part = InputText string | InputImage string

datatype json =
    JNull
  | JBool bool
  | JNum int
  | JStr string
  | JArr "json list"
  | JObj "(string \<times> json) list"

record platform =
  decodePercent :: "string \<Rightarrow> exn + string"
    \<comment> \<open>\<^verbatim>\<open>decodeURIComponent\<close> on a string that contains a percent sign\<close>
  deriveBits :: "string \<Rightarrow> string \<Rightarrow> int option \<Rightarrow> exn + string"
    \<comment> \<open>\<^verbatim>\<open>importKey\<close> and \<^verbatim>\<open>deriveBits\<close> (PBKDF2, SHA-256, 256 bits) on the password,
        the decoded salt and the iteration count (\<open>None\<close> when the count is
        \<^verbatim>\<open>undefined\<close>); the result is the derived bytes as a binary string\<close>
  dateParse :: "string \<Rightarrow> int option"
    \<comment> \<open>\<^verbatim>\<open>new Date(s).getTime()\<close>; \<open>None\<close> is \<^verbatim>\<open>NaN\<close>, an invalid date\<close>
  bigToString :: "int \<Rightarrow> string"
    \<comment> \<open>\<^verbatim>\<open>String(n)\<close> for a Number of magnitude \<open>2^53\<close> or more\<close>
  atobError :: exn
    \<comment> \<open>the \<^verbatim>\<open>InvalidCharacterError\<close> that \<^verbatim>\<open>atob\<close> throws\<close>
  kvKeyError :: exn
    \<comment> \<open>what the key-value namespace throws for a key of more than 512 bytes\<close>
  notFunction :: exn
    \<comment> \<open>the \<^verbatim>\<open>TypeError\<close> of calling a property that is not a function\<close>
  openai :: "string \<Rightarrow> content_part list \<Rightarrow> exn + json"
    \<comment> \<open>\<^verbatim>\<open>fetch\<close> to the extraction API with the API key and the message, and what
        \<^verbatim>\<open>extractWithGPT\<close> makes of the reply: the decoded payload, or a throw\<close>

subsection \<open>Numbers: rounding to a double, \<^verbatim>\<open>parseInt\<close>, \<^verbatim>\<open>String\<close>\<close>

text \<open>
  \<open>expo a\<close> is the number of low bits that a 53-bit significand cannot hold.
  \<open>roundNat\<close> rounds to the nearest representable integer, ties to even.
\<close>

function expo :: "int \<Rightarrow> nat" where
  "expo a = (if a < 2 ^ 53 then 0 else Suc (expo (a div 2)))"
  by pat_completeness auto
termination
  by (relation "measure (\<lambda>a. nat a)") auto

declare expo.simps [simp del]

definition roundNat :: "int \<Rightarrow> int" where
  "roundNat a =
     (let e = expo a; q = a div 2 ^ e; r = a mod 2 ^ e
      in if e = 0 then a
         else if 2 ^ e < 2 * r \<or> (2 * r = 2 ^ e \<and> odd q) then (q + 1) * 2 ^ e
         else q * 2 ^ e)"

definition toNumber :: "int \<Rightarrow> number" where
  "toNumber v =
     (let m = roundNat \<bar>v\<bar>
      in if 2 ^ 1024 \<le> m then (if v < 0 then NegInf else PosInf)
         else Num (if v < 0 then - m else m))"

text \<open>\<open>addNum a b\<close> is \<^verbatim>\<open>a + b\<close> on two finite Numbers whose sum does not overflow.\<close>

definition addNum :: "int \<Rightarrow> int \<Rightarrow> int" where
  "addNum a b = (if a + b < 0 then - roundNat (- (a + b)) else roundNat (a + b))"

definition isStrWhiteSpace :: "char \<Rightarrow> bool" where
  "isStrWhiteSpace c =
     (c = CHR 0x09 \<or> c = CHR 0x0A \<or> c = CHR 0x0B \<or> c = CHR 0x0C \<or> c = CHR 0x0D
      \<or> c = CHR 0x20 \<or> c = CHR 0xA0)"

definition charCode :: "char \<Rightarrow> int" where
  "charCode c = of_char c"

definition isDigit :: "char \<Rightarrow> bool" where
  "isDigit c = (48 \<le> charCode c \<and> charCode c \<le> 57)"

definition isUpper :: "char \<Rightarrow> bool" where
  "isUpper c = (65 \<le> charCode c \<and> charCode c \<le> 90)"

definition isLower :: "char \<Rightarrow> bool" where
  "isLower c = (97 \<le> charCode c \<and> charCode c \<le> 122)"

definition digitsValue :: "string \<Rightarrow> int" where
  "digitsValue Z = foldl (\<lambda>acc c. 10 * acc + (charCode c - 48)) 0 Z"

text \<open>
  \<^verbatim>\<open>parseInt(s, 10)\<close>: leading white space is dropped, one sign is read, the longest
  run of decimal digits is the value; no digit gives \<^verbatim>\<open>NaN\<close>. The value becomes a
  Number by rounding; an engine may approximate a value of more than 20 significant
  digits before it rounds, which the model does not.
\<close>

definition parseInt :: "string \<Rightarrow> number" where
  "parseInt inputString =
     (case dropWhile isStrWhiteSpace inputString of
        [] \<Rightarrow> NaN
      | c # cs \<Rightarrow>
          (let S = (if c = CHR ''+'' \<or> c = CHR ''-'' then cs else c # cs);
               Z = takeWhile isDigit S
           in if Z = [] then NaN
              else toNumber ((if c = CHR ''-'' then - 1 else 1) * digitsValue Z)))"

function natToString :: "int \<Rightarrow> string" where
  "natToString n =
     (if n < 10 then [char_of (48 + n)]
      else natToString (n div 10) @ [char_of (48 + n mod 10)])"
  by pat_completeness auto
termination
  by (relation "measure (\<lambda>n. nat n)") auto

declare natToString.simps [simp del]

text \<open>\<^verbatim>\<open>String(n)\<close> and the \<^verbatim>\<open>${n}\<close> of a template, for a finite integral Number.\<close>

definition numToString :: "platform \<Rightarrow> int \<Rightarrow> string" where
  "numToString P n =
     (if 2 ^ 53 \<le> \<bar>n\<bar> then bigToString P n
      else if n < 0 then CHR ''-'' # natToString (- n)
      else natToString n)"

subsection \<open>Strings: \<^verbatim>\<open>trim\<close>, \<^verbatim>\<open>encodeURIComponent\<close>, \<^verbatim>\<open>decodeURIComponent\<close>\<close>

definition trim :: "string \<Rightarrow> string" where
  "trim s = rev (dropWhile isStrWhiteSpace (rev (dropWhile isStrWhiteSpace s)))"

definition hexDigit :: "int \<Rightarrow> char" where
  "hexDigit d = (if d < 10 then char_of (48 + d) else char_of (55 + d))"

definition percentByte :: "int \<Rightarrow> string" where
  "percentByte b = [CHR ''%'', hexDigit (b div 16), hexDigit (b mod 16)]"

definition uriUnreserved :: "char \<Rightarrow> bool" where
  "uriUnreserved c =
     (isUpper c \<or> isLower c \<or> isDigit c
      \<or> c \<in> set ''-_.!~*'' \<or> c = CHR 0x27 \<or> c = CHR ''('' \<or> c = CHR '')'')"

text \<open>A code unit below \<open>0x80\<close> is one UTF-8 byte, one from \<open>0x80\<close> to \<open>0xFF\<close> is two.\<close>

definition encodeChar :: "char \<Rightarrow> string" where
  "encodeChar c =
     (let n = charCode c
      in if uriUnreserved c then [c]
         else if n < 128 then percentByte n
         else percentByte (192 + n div 64) @ percentByte (128 + n mod 64))"

definition encodeURIComponent :: "string \<Rightarrow> string" where
  "encodeURIComponent s = concat (map encodeChar s)"

text \<open>Without a percent sign \<^verbatim>\<open>decodeURIComponent\<close> copies its argument.\<close>

definition decodeURIComponent :: "platform \<Rightarrow> string \<Rightarrow> exn + string" where
  "decodeURIComponent P s = (if CHR ''%'' \<in> set s then decodePercent P s else Inr s)"

subsection \<open>Base64: \<^verbatim>\<open>btoa\<close> and \<^verbatim>\<open>atob\<close>\<close>

definition b64char :: "int \<Rightarrow> char" where
  "b64char i =
     (if i < 26 then char_of (65 + i)
      else if i < 52 then char_of (71 + i)
      else if i < 62 then char_of (i - 4)
      else if i = 62 then CHR ''+'' else CHR ''/'')"

fun b64encode :: "int list \<Rightarrow> string" where
  "b64encode [] = []"
| "b64encode [a] = [b64char (a div 4), b64char (a mod 4 * 16), CHR ''='', CHR ''='']"
| "b64encode [a, b] =
     [b64char (a div 4), b64char (a mod 4 * 16 + b div 16), b64char (b mod 16 * 4), CHR ''='']"
| "b64encode (a # b # c # rest) =
     [b64char (a div 4), b64char (a mod 4 * 16 + b div 16),
      b64char (b mod 16 * 4 + c div 64), b64char (c mod 64)] @ b64encode rest"

definition btoa :: "string \<Rightarrow> string" where
  "btoa s = b64encode (map charCode s)"

definition isB64 :: "char \<Rightarrow> bool" where
  "isB64 c =
     (isUpper c \<or> isLower c \<or> isDigit c
      \<or> c = CHR ''+'' \<or> c = CHR ''/'')"

definition b64value :: "char \<Rightarrow> int" where
  "b64value c =
     (let n = charCode c
      in if isUpper c then n - 65
         else if isLower c then n - 71
         else if isDigit c then n + 4
         else if c = CHR ''+'' then 62 else 63)"

fun b64decode :: "int list \<Rightarrow> int list" where
  "b64decode (a # b # c # d # rest) =
     [a * 4 + b div 16, b mod 16 * 16 + c div 4, c mod 4 * 64 + d] @ b64decode rest"
| "b64decode [a, b, c] = [a * 4 + b div 16, b mod 16 * 16 + c div 4]"
| "b64decode [a, b] = [a * 4 + b div 16]"
| "b64decode _ = []"

definition isAsciiWhitespace :: "char \<Rightarrow> bool" where
  "isAsciiWhitespace c =
     (c = CHR 0x09 \<or> c = CHR 0x0A \<or> c = CHR 0x0C \<or> c = CHR 0x0D \<or> c = CHR 0x20)"

definition stripPadding :: "string \<Rightarrow> string" where
  "stripPadding d =
     (if length d mod 4 = 0 \<and> d \<noteq> [] \<and> last d = CHR ''=''
      then (if butlast d \<noteq> [] \<and> last (butlast d) = CHR ''='' then butlast (butlast d)
            else butlast d)
      else d)"

text \<open>
  \<^verbatim>\<open>atob\<close> is the forgiving base64 decoder: ASCII white space is removed, one or two
  padding signs are removed from a string whose length is a multiple of four, and a
  length of one modulo four or a character outside the alphabet is an error.
\<close>

definition atob :: "platform \<Rightarrow> string \<Rightarrow> exn + string" where
  "atob P data =
     (let d = stripPadding (filter (\<lambda>c. \<not> isAsciiWhitespace c) data)
      in if length d mod 4 = 1 then Inl (atobError P)
         else if list_ex (\<lambda>c. \<not> isB64 c) d then Inl (atobError P)
         else Inr (map char_of (b64decode (map b64value d))))"

subsection \<open>The key-value namespace, requests and responses\<close>

text \<open>
  A stored value is the JSON object it parses to. The fields are those that the worker
  reads or writes and those that the provisioning tool writes, at the types that the two
  programs give them; a field that the object does not have is \<open>None\<close>, which is
  \<^verbatim>\<open>undefined\<close> when the worker reads it. An entry keeps the \<^verbatim>\<open>expirationTtl\<close> it was
  put with; the namespace of the model never drops an entry by itself, so an entry that
  the store has purged is an entry that is absent.
\<close>

record doc =
  username :: "string option"
  salt :: "string option"
  hash :: "string option"
  iterations :: "int option"
  expires :: "string option"
  roles :: "string list option"
  role :: "string option"
  quota :: "(int option \<times> int option) option"
  status :: "string option"
  exp :: "int option"

definition emptyDoc :: doc where
  "emptyDoc =
     \<lparr>username = None, salt = None, hash = None, iterations = None, expires = None,
      roles = None, role = None, quota = None, status = None, exp = None\<rparr>"

record kv_entry =
  content :: doc
  expirationTtl :: "int option"

type_synonym kv = "string \<rightharpoonup> kv_entry"

record env =
  ALLOWED_ORIGIN :: string
  OPENAI_API_KEY :: string
  USERS :: kv

text \<open>
  The namespace refuses a key of more than 512 bytes in UTF-8: \<^verbatim>\<open>get\<close> and \<^verbatim>\<open>delete\<close>
  throw. A code unit below \<open>0x80\<close> is one byte, one from \<open>0x80\<close> to \<open>0xFF\<close> is two.
\<close>

definition utf8Length :: "string \<Rightarrow> nat" where
  "utf8Length s = sum_list (map (\<lambda>c. if charCode c < 128 then 1 else 2) s)"

definition KEY_LIMIT :: nat where
  "KEY_LIMIT = 512"

text \<open>\<^verbatim>\<open>env.USERS.get(key, "json")\<close>: the parsed object, or \<^verbatim>\<open>null\<close>, or a throw.\<close>

definition kvGet :: "platform \<Rightarrow> env \<Rightarrow> string \<Rightarrow> exn + doc option" where
  "kvGet P env key =
     (if KEY_LIMIT < utf8Length key then Inl (kvKeyError P)
      else Inr (case USERS env key of None \<Rightarrow> None | Some e \<Rightarrow> Some (content e)))"

text \<open>\<^verbatim>\<open>env.USERS.delete(key)\<close>: the environment without the key, or a throw.\<close>

definition kvDelete :: "platform \<Rightarrow> env \<Rightarrow> string \<Rightarrow> exn + env" where
  "kvDelete P env key =
     (if KEY_LIMIT < utf8Length key then Inl (kvKeyError P)
      else Inr (env\<lparr>USERS := (USERS env)(key := None)\<rparr>))"

datatype login_body = LoginBody (body_username: "string option") (body_password: "string option")

text \<open>
  The parts of a request that the worker reads. \<open>json_body\<close> is the outcome of
  \<^verbatim>\<open>req.json()\<close> at the type the handler declares, \<open>form_data\<close> the outcome of
  \<^verbatim>\<open>request.formData()\<close> with its entries in order; both are \<open>Inl\<close> when the call
  throws. A JSON body of another type, on which reading a field or calling \<^verbatim>\<open>trim\<close>
  throws inside the same \<^verbatim>\<open>try\<close>, is an \<open>Inl\<close> as well.
\<close>

record request =
  http_method :: string
  pathname :: string
  cookie_header :: "string option"
  json_body :: "exn + login_body"
  form_data :: "exn + (string \<times> form_value) list"

datatype body = Json json | Text string | Empty

record response =
  rstatus :: int
  rheaders :: "string \<rightharpoonup> string"
  rbody :: body

subsection \<open>Small utilities\<close>

definition JSON_HEADER :: "string \<rightharpoonup> string" where
  "JSON_HEADER = [''content-type'' \<mapsto> ''application/json; charset=utf-8'']"

definition cors :: "env \<Rightarrow> string \<rightharpoonup> string" where
  "cors env =
     [''Access-Control-Allow-Origin'' \<mapsto> ALLOWED_ORIGIN env,
      ''Access-Control-Allow-Credentials'' \<mapsto> ''true'',
      ''Access-Control-Allow-Headers'' \<mapsto> ''Content-Type, Authorization, X-Requested-With'',
      ''Access-Control-Allow-Methods'' \<mapsto> ''POST, OPTIONS'',
      ''Access-Control-Max-Age'' \<mapsto> ''86400'',
      ''Vary'' \<mapsto> ''Origin'']"

definition stringify :: "json \<Rightarrow> body" where
  "stringify b = (case b of JStr s \<Rightarrow> Text s | _ \<Rightarrow> Json b)"

definition ok :: "json \<Rightarrow> env \<Rightarrow> (string \<rightharpoonup> string) \<Rightarrow> response" where
  "ok b env extraHeaders =
     \<lparr>rstatus = 200, rheaders = JSON_HEADER ++ cors env ++ extraHeaders, rbody = stringify b\<rparr>"

definition bad :: "json \<Rightarrow> env \<Rightarrow> int \<Rightarrow> response" where
  "bad b env st = \<lparr>rstatus = st, rheaders = JSON_HEADER ++ cors env, rbody = stringify b\<rparr>"

definition startsWith :: "string \<Rightarrow> string \<Rightarrow> bool" where
  "startsWith s p = (take (length p) s = p)"

definition notSemicolon :: "char \<Rightarrow> bool" where
  "notSemicolon c = (c \<noteq> CHR '';'')"

text \<open>
  The match of \<^verbatim>\<open>(?:^|; )name=([^;]*)\<close>, for a name of letters: the leftmost place
  where \<^verbatim>\<open>name=\<close> starts the string or follows \<^verbatim>\<open>"; "\<close>, and the longest run without
  a semicolon after it.
\<close>

fun cookieSearch :: "string \<Rightarrow> string \<Rightarrow> string option" where
  "cookieSearch [] nm = None"
| "cookieSearch (c # cs) nm =
     (if startsWith (c # cs) (''; '' @ nm @ ''='')
      then Some (takeWhile notSemicolon (drop (length nm + 3) (c # cs)))
      else cookieSearch cs nm)"

definition cookieMatch :: "string \<Rightarrow> string \<Rightarrow> string option" where
  "cookieMatch raw nm =
     (if startsWith raw (nm @ ''='')
      then Some (takeWhile notSemicolon (drop (length nm + 1) raw))
      else cookieSearch raw nm)"

definition getCookie :: "platform \<Rightarrow> request \<Rightarrow> string \<Rightarrow> exn + string option" where
  "getCookie P req nm =
     (let raw = (case cookie_header req of None \<Rightarrow> [] | Some h \<Rightarrow> h)
      in case cookieMatch raw nm of
           None \<Rightarrow> Inr None
         | Some m \<Rightarrow>
             (case decodeURIComponent P m of Inl e \<Rightarrow> Inl e | Inr v \<Rightarrow> Inr (Some v)))"

datatype same_site = Lax | Strict | SNone

record cookie_opts =
  maxAge :: "int option"
  path :: "string option"
  httpOnly :: "bool option"
  sameSite :: "same_site option"
  secure :: "bool option"

definition sameSiteName :: "same_site \<Rightarrow> string" where
  "sameSiteName x = (case x of Lax \<Rightarrow> ''Lax'' | Strict \<Rightarrow> ''Strict'' | SNone \<Rightarrow> ''None'')"

fun join :: "string \<Rightarrow> string list \<Rightarrow> string" where
  "join sep [] = []"
| "join sep [x] = x"
| "join sep (x # y # ys) = x @ sep @ join sep (y # ys)"

definition setCookie :: "platform \<Rightarrow> string \<Rightarrow> string \<Rightarrow> cookie_opts \<Rightarrow> string" where
  "setCookie P nm val opts =
     join ''; ''
       ([nm @ ''='' @ encodeURIComponent val]
        @ (case maxAge opts of None \<Rightarrow> [] | Some a \<Rightarrow> [''Max-Age='' @ numToString P a])
        @ [''Path='' @ (case path opts of None \<Rightarrow> ''/'' | Some p \<Rightarrow> p)]
        @ (if httpOnly opts = Some True then [''HttpOnly''] else [])
        @ [''SameSite='' @ sameSiteName (case sameSite opts of None \<Rightarrow> SNone | Some x \<Rightarrow> x)]
        @ (if secure opts = Some False then [] else [''Secure'']))"

definition hashPasswordPBKDF2 ::
  "platform \<Rightarrow> string \<Rightarrow> string option \<Rightarrow> int option \<Rightarrow> exn + string" where
  "hashPasswordPBKDF2 P password saltB64 iters =
     (case atob P (case saltB64 of None \<Rightarrow> ''undefined'' | Some s \<Rightarrow> s) of
        Inl e \<Rightarrow> Inl e
      | Inr slt \<Rightarrow>
          (case deriveBits P password slt iters of
             Inl e \<Rightarrow> Inl e
           | Inr bits \<Rightarrow> Inr (btoa bits)))"

text \<open>
  \<open>rnd\<close> is the source of random bytes: \<^verbatim>\<open>crypto.getRandomValues\<close> fills the array of
  \<open>bytes\<close> elements with \<open>rnd 0\<close>, \<open>rnd 1\<close> and so on.
\<close>

definition b64Random :: "(nat \<Rightarrow> char) \<Rightarrow> nat \<Rightarrow> string" where
  "b64Random rnd bytes =
     (let arr = map rnd [0..<bytes]
      in rev (dropWhile (\<lambda>c. c = CHR ''='') (rev (btoa arr))))"

subsection \<open>Session and trial helpers\<close>

definition SESSION_PREFIX :: string where
  "SESSION_PREFIX = ''session:''"

definition SESSION_TTL_SECONDS :: int where
  "SESSION_TTL_SECONDS = 60 * 60 * 24 * 30"

definition TRIAL_LIMIT :: int where
  "TRIAL_LIMIT = 3"

definition TRIAL_COOKIE :: string where
  "TRIAL_COOKIE = ''trial''"

definition SESSION_COOKIE :: string where
  "SESSION_COOKIE = ''sess''"

definition getSession :: "platform \<Rightarrow> env \<Rightarrow> string option \<Rightarrow> exn + doc option" where
  "getSession P env token =
     (case token of
        None \<Rightarrow> Inr None
      | Some t \<Rightarrow> if t = [] then Inr None else kvGet P env (SESSION_PREFIX @ t))"

text \<open>
  \<open>now\<close> is \<^verbatim>\<open>Date.now()\<close> in milliseconds, \<open>rnd\<close> the source of random bytes.
  The result is the pair \<^verbatim>\<open>{ token, exp }\<close> and the environment after the \<^verbatim>\<open>put\<close>. The key
  of the \<^verbatim>\<open>put\<close> is the prefix and the 32 characters of the token, 40 bytes, which the
  namespace accepts.
\<close>

definition createSession ::
  "env \<Rightarrow> string \<Rightarrow> string list \<Rightarrow> int \<Rightarrow> (nat \<Rightarrow> char) \<Rightarrow> (string \<times> int) \<times> env" where
  "createSession env uname rls now rnd =
     (let token = b64Random rnd 24;
          ex = now div 1000 + SESSION_TTL_SECONDS
      in ((token, ex),
          env\<lparr>USERS := (USERS env)(SESSION_PREFIX @ token \<mapsto>
             \<lparr>content = emptyDoc\<lparr>username := Some uname, exp := Some ex, roles := Some rls\<rparr>,
              expirationTtl = Some SESSION_TTL_SECONDS\<rparr>)\<rparr>))"

definition destroySession :: "platform \<Rightarrow> env \<Rightarrow> string option \<Rightarrow> exn + env" where
  "destroySession P env token =
     (case token of
        None \<Rightarrow> Inr env
      | Some t \<Rightarrow> if t = [] then Inr env else kvDelete P env (SESSION_PREFIX @ t))"

definition readTrialCookie :: "platform \<Rightarrow> request \<Rightarrow> exn + int" where
  "readTrialCookie P req =
     (case getCookie P req TRIAL_COOKIE of
        Inl e \<Rightarrow> Inl e
      | Inr v \<Rightarrow>
          (case parseInt (case v of None \<Rightarrow> ''0'' | Some s \<Rightarrow> if s = [] then ''0'' else s) of
             Num n \<Rightarrow> Inr n
           | _ \<Rightarrow> Inr 0))"

definition trialExceeded :: "int \<Rightarrow> bool" where
  "trialExceeded n = (TRIAL_LIMIT \<le> n)"

subsection \<open>Login and logout\<close>

definition caught :: "exn \<Rightarrow> env \<Rightarrow> response" where
  "caught e env =
     bad (JObj [(''error'', JStr (if message e = [] then ''bad_request'' else message e))]) env 400"

definition invalid_credentials :: "env \<Rightarrow> response" where
  "invalid_credentials env = bad (JObj [(''error'', JStr ''invalid_credentials'')]) env 401"

definition accountExpired :: "platform \<Rightarrow> doc \<Rightarrow> int \<Rightarrow> bool" where
  "accountExpired P d now =
     (case expires d of
        None \<Rightarrow> False
      | Some s \<Rightarrow>
          if s = [] then False
          else (case dateParse P s of None \<Rightarrow> False | Some t \<Rightarrow> t < now))"

definition sessionCookieOpts :: cookie_opts where
  "sessionCookieOpts =
     \<lparr>maxAge = Some SESSION_TTL_SECONDS, path = None, httpOnly = Some True,
      sameSite = Some SNone, secure = Some True\<rparr>"

definition clearCookieOpts :: cookie_opts where
  "clearCookieOpts =
     \<lparr>maxAge = Some 0, path = None, httpOnly = Some True,
      sameSite = Some SNone, secure = Some True\<rparr>"

text \<open>
  \<open>now\<close> is the clock at the expiry test, \<open>now'\<close> the clock inside \<^verbatim>\<open>createSession\<close>,
  \<open>rnd\<close> the source of random bytes. The whole body is inside \<^verbatim>\<open>try\<close>: every throw
  becomes the 400 of the \<^verbatim>\<open>catch\<close>.
\<close>

definition handleLogin ::
  "platform \<Rightarrow> request \<Rightarrow> env \<Rightarrow> int \<Rightarrow> int \<Rightarrow> (nat \<Rightarrow> char) \<Rightarrow> response \<times> env" where
  "handleLogin P req env now now' rnd =
     (case json_body req of
        Inl e \<Rightarrow> (caught e env, env)
      | Inr b \<Rightarrow>
          (let uname = trim (case body_username b of None \<Rightarrow> [] | Some u \<Rightarrow> u);
               password = (case body_password b of None \<Rightarrow> [] | Some p \<Rightarrow> p)
           in if uname = [] \<or> password = []
              then (bad (JObj [(''error'', JStr ''username and password are required'')]) env 400, env)
              else
                (case kvGet P env (''user:'' @ uname) of
                   Inl e \<Rightarrow> (caught e env, env)
                 | Inr None \<Rightarrow> (invalid_credentials env, env)
                 | Inr (Some d) \<Rightarrow>
                     if accountExpired P d now
                     then (bad (JObj [(''error'', JStr ''account_expired'')]) env 403, env)
                     else
                       (case hashPasswordPBKDF2 P password (salt d) (iterations d) of
                          Inl e \<Rightarrow> (caught e env, env)
                        | Inr derived \<Rightarrow>
                            if hash d = Some derived
                            then
                              (let (session, env') =
                                     createSession env uname
                                       (case roles d of None \<Rightarrow> [] | Some r \<Rightarrow> r) now' rnd;
                                   cookie = setCookie P SESSION_COOKIE (fst session) sessionCookieOpts;
                                   clearTrial = setCookie P TRIAL_COOKIE ''0'' clearCookieOpts
                               in (ok (JObj [(''ok'', JBool True), (''username'', JStr uname)]) env
                                     [''Set-Cookie'' \<mapsto> cookie @ '', '' @ clearTrial],
                                   env'))
                            else (invalid_credentials env, env)))))"

definition handleLogout :: "platform \<Rightarrow> request \<Rightarrow> env \<Rightarrow> (exn + response) \<times> env" where
  "handleLogout P req env =
     (case getCookie P req SESSION_COOKIE of
        Inl e \<Rightarrow> (Inl e, env)
      | Inr token \<Rightarrow>
          (case destroySession P env token of
             Inl e \<Rightarrow> (Inl e, env)
           | Inr env' \<Rightarrow>
               (Inr (ok (JObj [(''ok'', JBool True)]) env
                       [''Set-Cookie'' \<mapsto> setCookie P SESSION_COOKIE [] clearCookieOpts]),
                env')))"

subsection \<open>The guard for \<^verbatim>\<open>/api/extract\<close>\<close>

datatype auth_result = Session "string option" "string list" | Trial int

text \<open>
  The object that \<^verbatim>\<open>guardExtract\<close> returns: \<open>Allowed mode headers\<close> is
  \<^verbatim>\<open>{ allowed: true, mode, headers }\<close> (\<open>headers\<close> is \<open>None\<close> on the session branch,
  which sets none), \<open>Denied error\<close> is \<^verbatim>\<open>{ allowed: false, error }\<close>.
\<close>

datatype guard = Allowed auth_result "(string \<rightharpoonup> string) option" | Denied response

definition trialCookieOpts :: cookie_opts where
  "trialCookieOpts =
     \<lparr>maxAge = Some (60 * 60 * 24 * 7), path = None, httpOnly = Some True,
      sameSite = Some SNone, secure = Some True\<rparr>"

definition sessionLive :: "doc option \<Rightarrow> int \<Rightarrow> bool" where
  "sessionLive sess now =
     (case sess of
        None \<Rightarrow> False
      | Some s \<Rightarrow> (case exp s of None \<Rightarrow> False | Some e \<Rightarrow> now div 1000 < e))"

definition trialExhausted :: "env \<Rightarrow> response" where
  "trialExhausted env =
     bad (JObj [(''error'', JStr ''trial_exhausted''),
                (''hint'', JStr ''Trial limit reached. Please login to continue.'')]) env 429"

definition guardExtract :: "platform \<Rightarrow> request \<Rightarrow> env \<Rightarrow> int \<Rightarrow> exn + guard" where
  "guardExtract P req env now =
     (case getCookie P req SESSION_COOKIE of
        Inl e \<Rightarrow> Inl e
      | Inr sessToken \<Rightarrow>
          (case getSession P env sessToken of
             Inl e \<Rightarrow> Inl e
           | Inr sess \<Rightarrow>
               if sessionLive sess now
               then Inr (Allowed
                      (Session (case sess of None \<Rightarrow> None | Some s \<Rightarrow> username s)
                         (case sess of None \<Rightarrow> [] | Some s \<Rightarrow> (case roles s of None \<Rightarrow> [] | Some r \<Rightarrow> r)))
                      None)
               else
                 (case readTrialCookie P req of
                    Inl e \<Rightarrow> Inl e
                  | Inr used \<Rightarrow>
                      if trialExceeded used then Inr (Denied (trialExhausted env))
                      else
                        (let newCount = addNum used 1;
                             cookie = setCookie P TRIAL_COOKIE (numToString P newCount) trialCookieOpts
                         in Inr (Allowed (Trial newCount) (Some [''Set-Cookie'' \<mapsto> cookie]))))))"

subsection \<open>The extract handler and the router\<close>

text \<open>
  \<^verbatim>\<open>parseFormData\<close>: the string values under \<^verbatim>\<open>images_dataurl[]\<close>, in order, and the
  first value under \<^verbatim>\<open>doc_text\<close>, or the empty string when there is none or it is empty.
\<close>

definition parseFormData :: "request \<Rightarrow> exn + string list \<times> form_value" where
  "parseFormData req =
     (case form_data req of
        Inl e \<Rightarrow> Inl e
      | Inr form \<Rightarrow>
          Inr (concat (map (\<lambda>(k, v). case v of FString s \<Rightarrow> (if k = ''images_dataurl[]'' then [s] else [])
                                         | FFile \<Rightarrow> []) form),
               (case map_of form ''doc_text'' of
                  None \<Rightarrow> FString []
                | Some v \<Rightarrow> v)))"

definition PROMPT :: string where
  \<open>PROMPT =
     ''You are an invoice parser for Indian GST invoices.'' @ [CHR 0x0A]
     @ ''Return only this JSON fields:'' @ [CHR 0x0A]
     @ ''{'' @ [CHR 0x0A]
     @ ''  "seller": { "company_name": string, "gstin": string, "address": string },'' @ [CHR 0x0A]
     @ ''  "invoice": { "number": string, "date": string, "transaction_id": string },'' @ [CHR 0x0A]
     @ ''  "taxes": [ { "type": "CGST|SGST|IGST", "rate_percent": number, "amount": number } ],''
     @ [CHR 0x0A]
     @ ''  "amounts": { "taxable_amount": number, "total_amount": number }'' @ [CHR 0x0A]
     @ ''}'' @ [CHR 0x0A]
     @ ''Use DD-MM-YYYY date format. If a field is missing, return an empty string.''\<close>

text \<open>
  \<^verbatim>\<open>extractWithGPT\<close> builds the message (\<open>buildContent\<close>: the prompt, one image part for
  each image, and the first 10000 code units of the text when its trimmed form is not
  empty) and sends it; \<open>openai P\<close> is the \<^verbatim>\<open>fetch\<close> and what the function makes of the reply. A
  \<^verbatim>\<open>doc_text\<close> that is a file has no \<^verbatim>\<open>trim\<close>: the call of \<^verbatim>\<open>parts.docText?.trim()\<close> throws
  before anything is sent. The second component of the result lists the messages that
  were sent.
\<close>

definition buildContent :: "string list \<Rightarrow> string \<Rightarrow> content_part list" where
  "buildContent imgs docText =
     [InputText PROMPT]
     @ map InputImage imgs
     @ (if trim docText = [] then []
        else [InputText (''Raw extracted text:'' @ [CHR 0x0A] @ take 10000 docText)])"

definition extractWithGPT ::
  "platform \<Rightarrow> env \<Rightarrow> string list \<times> form_value \<Rightarrow> (exn + json) \<times> content_part list list" where
  "extractWithGPT P env parts =
     (case snd parts of
        FFile \<Rightarrow> (Inl (notFunction P), [])
      | FString docText \<Rightarrow>
          (let content = buildContent (fst parts) docText
           in (openai P (OPENAI_API_KEY env) content, [content])))"

text \<open>
  The second component lists the messages that were sent to the extraction API while
  the request was handled.
\<close>

definition handleExtract ::
  "platform \<Rightarrow> request \<Rightarrow> env \<Rightarrow> int \<Rightarrow> (exn + response) \<times> content_part list list" where
  "handleExtract P req env now =
     (case guardExtract P req env now of
        Inl e \<Rightarrow> (Inl e, [])
      | Inr (Denied err) \<Rightarrow> (Inr err, [])
      | Inr (Allowed mode hdrs) \<Rightarrow>
          (let extraHeaders = (case hdrs of None \<Rightarrow> Map.empty | Some h \<Rightarrow> h)
           in case parseFormData req of
                Inl e \<Rightarrow> (Inl e, [])
              | Inr (imgs, docText) \<Rightarrow>
                  if (case mode of Trial c \<Rightarrow> 1 < length imgs | Session u r \<Rightarrow> False)
                  then (Inr (bad (JObj [(''error'', JStr ''trial_one_page_only'')]) env 403), [])
                  else if 10 < length imgs
                  then (Inr (bad (JObj [(''error'', JStr ''too_many_pages'')]) env 400), [])
                  else
                    (case extractWithGPT P env (imgs, docText) of
                       (Inl e, calls) \<Rightarrow> (Inl e, calls)
                     | (Inr js, calls) \<Rightarrow>
                         (Inr \<lparr>rstatus = 200,
                               rheaders = JSON_HEADER ++ cors env ++ extraHeaders,
                               rbody = Json js\<rparr>,
                          calls))))"

definition server_error :: "exn \<Rightarrow> env \<Rightarrow> response" where
  "server_error e env =
     bad (JObj [(''error'', JStr ''server_error''),
                (''detail'', JStr (if message e = [] then name e else message e))]) env 500"

text \<open>
  The router. Its result is the response, the environment after the request and the
  messages that were sent to the extraction API. A response built from a string without
  a content type gets \<^verbatim>\<open>text/plain\<close> from the runtime.
\<close>

definition fetch ::
  "platform \<Rightarrow> request \<Rightarrow> env \<Rightarrow> int \<Rightarrow> int \<Rightarrow> (nat \<Rightarrow> char) \<Rightarrow>
   response \<times> env \<times> content_part list list" where
  "fetch P req env now now' rnd =
     (if http_method req = ''OPTIONS''
      then (\<lparr>rstatus = 204, rheaders = cors env, rbody = Empty\<rparr>, env, [])
      else if pathname req = ''/''
      then (\<lparr>rstatus = 405,
             rheaders = [''content-type'' \<mapsto> ''text/plain;charset=UTF-8''] ++ cors env,
             rbody = Text ''Use POST /api/extract''\<rparr>, env, [])
      else if pathname req = ''/api/login'' \<and> http_method req = ''POST''
      then (let (r, env') = handleLogin P req env now now' rnd in (r, env', []))
      else if pathname req = ''/api/logout'' \<and> http_method req = ''POST''
      then (case handleLogout P req env of
              (Inl e, env') \<Rightarrow> (server_error e env, env', [])
            | (Inr r, env') \<Rightarrow> (r, env', []))
      else if pathname req = ''/api/extract'' \<and> http_method req = ''POST''
      then (case handleExtract P req env now of
              (Inl e, calls) \<Rightarrow> (server_error e env, env, calls)
            | (Inr r, calls) \<Rightarrow> (r, env, calls))
      else (bad (JObj [(''error'', JStr ''not_found'')]) env 404, env, []))"

subsection \<open>The provisioning tool\<close>

text \<open>
  The record \<^verbatim>\<open>rec\<close> of \<^verbatim>\<open>tools/make-user.mjs\<close>, as the object that the worker reads
  back from the namespace. \<open>pbkdf2Sync\<close> is Node's key derivation at the digest
  \<^verbatim>\<open>sha256\<close>, \<open>slt\<close> the 16 random bytes; the other arguments are the tool's constants
  of the same names (\<open>None\<close> in the quota is a \<^verbatim>\<open>NaN\<close>, which JSON writes as \<^verbatim>\<open>null\<close>).
\<close>

definition make_user ::
  "(string \<Rightarrow> string \<Rightarrow> int \<Rightarrow> int \<Rightarrow> string) \<Rightarrow> string \<Rightarrow> string \<Rightarrow> string \<Rightarrow> string \<Rightarrow>
   int option \<Rightarrow> int option \<Rightarrow> string \<Rightarrow> doc" where
  "make_user pbkdf2Sync slt uname password rl max_pages max_files expry =
     (let iters = 120000;
          keyLen = 32;
          digest = ''sha256'';
          derived = pbkdf2Sync password slt iters keyLen
      in emptyDoc
           \<lparr>username := Some uname,
            role := Some rl,
            quota := Some (max_pages, max_files),
            expires := Some expry,
            status := Some ''active'',
            hash := Some (''pbkdf2$'' @ digest @ ''$'' @ natToString iters @ ''$'' @ btoa slt
                          @ ''$'' @ btoa derived)\<rparr>)"

subsection \<open>A runtime for running the model\<close>

text \<open>
  A deterministic stand-in for the runtime, used to run the functions above on
  concrete requests. Its key derivation is not PBKDF2: it joins the salt and the
  password. Its extraction API fails on a message that has nothing but the prompt.
  Every statement below that holds for all runtimes is stated for an arbitrary \<open>P\<close>.
\<close>

definition testPlatform :: platform where
  "testPlatform =
     \<lparr>decodePercent = (\<lambda>s. Inl (Exn ''URIError'' ''URI malformed'')),
      deriveBits = (\<lambda>password slt iters.
         case iters of None \<Rightarrow> Inl (Exn ''TypeError'' ''iterations'') | Some n \<Rightarrow> Inr (slt @ password)),
      dateParse = (\<lambda>s. None),
      bigToString = (\<lambda>n. ''big''),
      atobError = Exn ''InvalidCharacterError'' ''Invalid character'',
      kvKeyError = Exn ''Error'' ''KV GET failed: 414 key too long'',
      notFunction = Exn ''TypeError'' ''parts.docText?.trim is not a function'',
      openai = (\<lambda>key content.
         if length content \<le> 1 then Inl (Exn ''Error'' ''OpenAI error: 400 '') else Inr (JObj []))\<rparr>"

definition testEnv :: env where
  "testEnv = \<lparr>ALLOWED_ORIGIN = ''https://deep7285.github.io'', OPENAI_API_KEY = ''key'', USERS = Map.empty\<rparr>"

definition extractRequest :: "string option \<Rightarrow> (string \<times> form_value) list \<Rightarrow> request" where
  "extractRequest ck form =
     \<lparr>http_method = ''POST'', pathname = ''/api/extract'', cookie_header = ck,
      json_body = Inl (Exn ''SyntaxError'' ''Unexpected token''), form_data = Inr form\<rparr>"

definition loginRequest :: "string \<Rightarrow> string \<Rightarrow> request" where
  "loginRequest u p =
     \<lparr>http_method = ''POST'', pathname = ''/api/login'', cookie_header = None,
      json_body = Inr (LoginBody (Some u) (Some p)),
      form_data = Inl (Exn ''TypeError'' ''not a form'')\<rparr>"

definition images :: "nat \<Rightarrow> (string \<times> form_value) list" where
  "images n = replicate n (''images_dataurl[]'', FString ''data:image/jpeg;base64,AAAA'')"

text \<open>
  An account in the shape that \<^verbatim>\<open>handleLogin\<close> reads, for the password \<^verbatim>\<open>pw\<close> under
  \<open>testPlatform\<close>, and marked disabled.
\<close>

definition disabledDoc :: doc where
  "disabledDoc =
     emptyDoc\<lparr>username := Some ''bob'', salt := Some ''AAAA'', hash := Some ''AAAAcHc='',
              iterations := Some 1, status := Some ''disabled''\<rparr>"

definition disabledEnv :: env where
  "disabledEnv =
     testEnv\<lparr>USERS := [''user:bob'' \<mapsto> \<lparr>content = disabledDoc, expirationTtl = None\<rparr>]\<rparr>"

text \<open>An account as the provisioning tool writes it, stored under its user name.\<close>

definition toolEnv :: "(string \<Rightarrow> string \<Rightarrow> int \<Rightarrow> int \<Rightarrow> string) \<Rightarrow> string \<Rightarrow> env" where
  "toolEnv pbkdf2Sync slt =
     testEnv\<lparr>USERS := [''user:alice'' \<mapsto>
        \<lparr>content = make_user pbkdf2Sync slt ''alice'' ''secret'' ''user'' (Some 10) (Some 100)
                     ''2099-12-31'',
         expirationTtl = None\<rparr>]\<rparr>"

text \<open>A session created at 5 seconds with a token of 24 zero bytes, and a request that carries it.\<close>

definition zeroBytes :: "nat \<Rightarrow> char" where
  "zeroBytes i = CHR 0x00"

definition zeroToken :: string where
  "zeroToken = ''AAAAAAAAAAAAAAAAAAAAAAAAAAAAAAAA''"

definition sessionEnv :: env where
  "sessionEnv = snd (createSession testEnv ''alice'' [''admin''] 5000 zeroBytes)"

text \<open>A session cookie of 505 characters: with the prefix the key has 513 bytes.\<close>

definition longSessionCookie :: string where
  "longSessionCookie = ''sess='' @ replicate 505 (CHR ''t'')"

definition sessionRequest :: request where
  "sessionRequest = extractRequest (Some ''sess=AAAAAAAAAAAAAAAAAAAAAAAAAAAAAAAA'') []"

section \<open>Properties\<close>

subsection \<open>The trial counter\<close>

lemma parseInt_zero: "parseInt ''0'' = Num 0"
  by code_simp

lemma cookieMatch_empty: "cookieMatch [] TRIAL_COOKIE = None"
  by code_simp

lemma readTrialCookie_no_header: "readTrialCookie P (req\<lparr>cookie_header := None\<rparr>) = Inr 0"
  by (simp add: readTrialCookie_def getCookie_def cookieMatch_empty parseInt_zero)

lemma three_increments: "addNum (addNum (addNum 0 1) 1) 1 = 3"
  by code_simp

text \<open>
  C6. \<^verbatim>\<open>trialExceeded\<close> is true exactly from 3 on. The read of a request without a
  cookie header is 0, three increments of it reach a count that is exceeded, and the
  counts 0, 1 and 2 are not.
\<close>

theorem trial_exceeded_from_three:
  "trialExceeded n = (3 \<le> n)
   \<and> readTrialCookie P (req\<lparr>cookie_header := None\<rparr>) = Inr 0
   \<and> trialExceeded (addNum (addNum (addNum 0 1) 1) 1)
   \<and> \<not> trialExceeded 0 \<and> \<not> trialExceeded 1 \<and> \<not> trialExceeded 2"
  by (simp add: trialExceeded_def TRIAL_LIMIT_def readTrialCookie_no_header three_increments)





lemma toNumber_not_NaN: "toNumber v \<noteq> NaN"
  by (simp add: toNumber_def Let_def)

text \<open>\<^verbatim>\<open>parseInt\<close> gives \<^verbatim>\<open>NaN\<close> exactly when no digit follows the white space and the sign.\<close>

lemma parseInt_NaN_iff:
  "(parseInt v = NaN) =
     (case dropWhile isStrWhiteSpace v of
        [] \<Rightarrow> True
      | c # cs \<Rightarrow> takeWhile isDigit (if c = CHR ''+'' \<or> c = CHR ''-'' then cs else c # cs) = [])"
proof -
  have "((case d of [] \<Rightarrow> NaN
          | c # cs \<Rightarrow>
              (let S = (if c = CHR ''+'' \<or> c = CHR ''-'' then cs else c # cs);
                   Z = takeWhile isDigit S
               in if Z = [] then NaN
                  else toNumber ((if c = CHR ''-'' then - 1 else 1) * digitsValue Z))) = NaN)
        = (case d of [] \<Rightarrow> True
           | c # cs \<Rightarrow> takeWhile isDigit (if c = CHR ''+'' \<or> c = CHR ''-'' then cs else c # cs) = [])"
    for d
    by (cases d) (simp_all add: Let_def toNumber_not_NaN)
  then show ?thesis
    unfolding parseInt_def .
qed











subsection \<open>Login\<close>

lemma atob_undefined: "atob P ''undefined'' = Inl (atobError P)"
  by (simp add: atob_def stripPadding_def isAsciiWhitespace_def)

lemma hashPassword_no_salt: "hashPasswordPBKDF2 P pw None it = Inl (atobError P)"
  by (simp add: hashPasswordPBKDF2_def atob_undefined)

lemma make_user_fields:
  "salt (make_user k slt nm pw rl mp mf ex) = None"
  "iterations (make_user k slt nm pw rl mp mf ex) = None"
  "expires (make_user k slt nm pw rl mp mf ex) = Some ex"
  "status (make_user k slt nm pw rl mp mf ex) = Some ''active''"
  by (simp_all add: make_user_def emptyDoc_def Let_def)

lemma bad_status: "rstatus (bad b env st) = st"
  by (simp add: bad_def)

lemma bad_no_cookie: "rheaders (bad b env st) ''Set-Cookie'' = None"
  by (simp add: bad_def JSON_HEADER_def cors_def map_add_def)

lemma caught_status: "rstatus (caught e env) = 400"
  by (simp add: caught_def bad_status)

lemma caught_no_cookie: "rheaders (caught e env) ''Set-Cookie'' = None"
  by (simp add: caught_def bad_no_cookie)

lemma invalid_status: "rstatus (invalid_credentials env) = 401"
  by (simp add: invalid_credentials_def bad_status)

lemma invalid_no_cookie: "rheaders (invalid_credentials env) ''Set-Cookie'' = None"
  by (simp add: invalid_credentials_def bad_no_cookie)

lemma ok_status: "rstatus (ok b env h) = 200"
  by (simp add: ok_def)

lemma kvGet_upd:
  "kvGet P (env\<lparr>USERS := (USERS env)(k \<mapsto> e)\<rparr>) k
   = (if KEY_LIMIT < utf8Length k then Inl (kvKeyError P) else Inr (Some (content e)))"
  by (simp add: kvGet_def)

lemma env_upd_responses:
  "bad b (env\<lparr>USERS := m\<rparr>) st = bad b env st"
  "ok b (env\<lparr>USERS := m\<rparr>) h = ok b env h"
  "caught e (env\<lparr>USERS := m\<rparr>) = caught e env"
  "invalid_credentials (env\<lparr>USERS := m\<rparr>) = invalid_credentials env"
  by (simp_all add: bad_def ok_def caught_def invalid_credentials_def cors_def)

lemma accountExpired_status: "accountExpired P (d\<lparr>status := s\<rparr>) now = accountExpired P d now"
  by (simp add: accountExpired_def)

lemma createSession_token:
  "fst (createSession env u rs now rnd) = (b64Random rnd 24, now div 1000 + SESSION_TTL_SECONDS)"
  by (simp add: createSession_def Let_def)

text \<open>The outcomes of \<^verbatim>\<open>handleLogin\<close> on a body that has both fields.\<close>

lemma login_unknown_user:
  assumes "json_body req = Inr (LoginBody (Some u) (Some pw))" and "trim u \<noteq> []" and "pw \<noteq> []"
    and "kvGet P env (''user:'' @ trim u) = Inr None"
  shows "handleLogin P req env now now' rnd = (invalid_credentials env, env)"
  using assms by (simp add: handleLogin_def)

lemma login_store_thrown:
  assumes "json_body req = Inr (LoginBody (Some u) (Some pw))" and "trim u \<noteq> []" and "pw \<noteq> []"
    and "kvGet P env (''user:'' @ trim u) = Inl e"
  shows "handleLogin P req env now now' rnd = (caught e env, env)"
  using assms by (simp add: handleLogin_def)

lemma login_wrong_password:
  assumes "json_body req = Inr (LoginBody (Some u) (Some pw))" and "trim u \<noteq> []" and "pw \<noteq> []"
    and "kvGet P env (''user:'' @ trim u) = Inr (Some d)" and "\<not> accountExpired P d now"
    and "hashPasswordPBKDF2 P pw (salt d) (iterations d) = Inr h" and "hash d \<noteq> Some h"
  shows "handleLogin P req env now now' rnd = (invalid_credentials env, env)"
  using assms by (simp add: handleLogin_def)

lemma login_thrown:
  assumes "json_body req = Inr (LoginBody (Some u) (Some pw))" and "trim u \<noteq> []" and "pw \<noteq> []"
    and "kvGet P env (''user:'' @ trim u) = Inr (Some d)" and "\<not> accountExpired P d now"
    and "hashPasswordPBKDF2 P pw (salt d) (iterations d) = Inl e"
  shows "handleLogin P req env now now' rnd = (caught e env, env)"
  using assms by (simp add: handleLogin_def)

lemma login_success:
  assumes "json_body req = Inr (LoginBody (Some u) (Some pw))" and "trim u \<noteq> []" and "pw \<noteq> []"
    and "kvGet P env (''user:'' @ trim u) = Inr (Some d)" and "\<not> accountExpired P d now"
    and "hashPasswordPBKDF2 P pw (salt d) (iterations d) = Inr h" and "hash d = Some h"
  shows "rstatus (fst (handleLogin P req env now now' rnd)) = 200"
    and "rheaders (fst (handleLogin P req env now now' rnd)) ''Set-Cookie''
         = Some (setCookie P SESSION_COOKIE (b64Random rnd 24) sessionCookieOpts @ '', ''
                 @ setCookie P TRIAL_COOKIE ''0'' clearCookieOpts)"
    and "snd (handleLogin P req env now now' rnd)
         = snd (createSession env (trim u) (case roles d of None \<Rightarrow> [] | Some r \<Rightarrow> r) now' rnd)"
  using assms
  by (simp_all add: handleLogin_def Let_def split_beta ok_def createSession_token)

text \<open>
  C1. The claim is that a login with the right password succeeds on the record that the
  provisioning tool writes. The code does not do that: the tool's record has no
  \<^verbatim>\<open>salt\<close> and no \<^verbatim>\<open>iterations\<close> field, \<^verbatim>\<open>atob(undefined)\<close> throws, and the login for
  that user never answers 200, whatever the runtime, the clock and the password.
\<close>

theorem login_rejects_tool_record:
  "rstatus (fst (handleLogin P (req\<lparr>json_body := Inr (LoginBody (Some u) (Some pw))\<rparr>)
      (env\<lparr>USERS := (USERS env)(''user:'' @ trim u \<mapsto>
         \<lparr>content = make_user pbkdf2Sync slt nm pw rl mp mf ex, expirationTtl = t\<rparr>)\<rparr>)
      now now' rnd)) \<noteq> 200"
  by (simp add: handleLogin_def Let_def kvGet_upd make_user_fields hashPassword_no_salt
      bad_status caught_status)

text \<open>The same on one request: the answer is the 400 of the \<^verbatim>\<open>catch\<close>.\<close>

lemma tool_login_400:
  "rstatus (fst (handleLogin testPlatform (loginRequest ''alice'' ''secret'')
      (toolEnv (\<lambda>p s i k. s @ p) ''0123456789abcdef'') 0 0 zeroBytes)) = 400
   \<and> rbody (fst (handleLogin testPlatform (loginRequest ''alice'' ''secret'')
      (toolEnv (\<lambda>p s i k. s @ p) ''0123456789abcdef'') 0 0 zeroBytes))
     = Json (JObj [(''error'', JStr ''Invalid character'')])"
  by code_simp

text \<open>
  C2, as the code has it. \<^verbatim>\<open>handleLogin\<close> does not read the \<^verbatim>\<open>status\<close> field: the
  response to a login is the same whatever the status of a stored record is, so a record
  marked disabled is accepted exactly when the same record marked active is.
\<close>

theorem login_ignores_status:
  "fst (handleLogin P req
      (env\<lparr>USERS := (USERS env)(k \<mapsto> \<lparr>content = d\<lparr>status := s\<rparr>, expirationTtl = t\<rparr>)\<rparr>) now now' rnd)
   = fst (handleLogin P req
      (env\<lparr>USERS := (USERS env)(k \<mapsto> \<lparr>content = d, expirationTtl = t\<rparr>)\<rparr>) now now' rnd)"
  by (simp add: handleLogin_def Let_def kvGet_def env_upd_responses accountExpired_status
      split_beta createSession_token
      split: sum.split option.split)

text \<open>
  C2 as stated fails: the stored record of \<^verbatim>\<open>bob\<close> is marked disabled, and the login
  with his password answers 200 and writes a session for him.
\<close>

theorem disabled_account_logs_in:
  "status disabledDoc = Some ''disabled''
   \<and> kvGet testPlatform disabledEnv ''user:bob'' = Inr (Some disabledDoc)
   \<and> rstatus (fst (handleLogin testPlatform (loginRequest ''bob'' ''pw'') disabledEnv 0 0
        zeroBytes)) = 200
   \<and> map_sum id (map_option username)
        (kvGet testPlatform (snd (handleLogin testPlatform (loginRequest ''bob'' ''pw'')
           disabledEnv 0 0 zeroBytes)) ''session:AAAAAAAAAAAAAAAAAAAAAAAAAAAAAAAA'')
      = Inr (Some (Some ''bob''))"
  by code_simp

lemma trim_names: "trim ''bob'' = ''bob''" "trim ''alice'' = ''alice''"
  by code_simp+

lemma short_keys:
  "\<not> KEY_LIMIT < utf8Length ''user:bob''" "\<not> KEY_LIMIT < utf8Length ''user:alice''"
  by code_simp+

text \<open>
  C9. The claim is that an unknown user and a wrong password get the same answer. For
  an account that the provisioning tool wrote they do not: the unknown user \<^verbatim>\<open>bob\<close>
  gets 401 \<^verbatim>\<open>invalid_credentials\<close>, the wrong password for \<^verbatim>\<open>alice\<close> gets another status
  (the 400 of the \<^verbatim>\<open>catch\<close>, or 403 once the account has expired).
\<close>

theorem tool_account_enumerable:
  "rstatus (fst (handleLogin P (loginRequest ''bob'' ''x'') (toolEnv pbkdf2Sync slt) now now' rnd)) = 401
   \<and> rbody (fst (handleLogin P (loginRequest ''bob'' ''x'') (toolEnv pbkdf2Sync slt) now now' rnd))
       = Json (JObj [(''error'', JStr ''invalid_credentials'')])
   \<and> rstatus (fst (handleLogin P (loginRequest ''alice'' ''wrong'') (toolEnv pbkdf2Sync slt) now now' rnd))
       \<noteq> 401"
  by (simp add: handleLogin_def Let_def loginRequest_def toolEnv_def trim_names kvGet_def short_keys
      make_user_fields hashPassword_no_salt bad_status caught_status invalid_credentials_def
      bad_def stringify_def)

text \<open>
  C10. A login that does not answer 200 leaves the namespace as it was and sets no
  cookie.
\<close>

theorem login_failure_no_effect:
  assumes "rstatus (fst (handleLogin P req env now now' rnd)) \<noteq> 200"
  shows "snd (handleLogin P req env now now' rnd) = env
         \<and> rheaders (fst (handleLogin P req env now now' rnd)) ''Set-Cookie'' = None"
  using assms
  by (auto simp: handleLogin_def Let_def bad_no_cookie caught_no_cookie invalid_no_cookie ok_status
      split: sum.splits option.splits if_splits prod.splits)

lemma login_401:
  "rstatus (fst (handleLogin testPlatform (loginRequest ''bob'' ''wrong'') disabledEnv 0 0 zeroBytes)) = 401"
  by code_simp

theorem login_failure_no_effect_witness:
  "rstatus (fst (handleLogin testPlatform (loginRequest ''bob'' ''wrong'') disabledEnv 0 0 zeroBytes)) \<noteq> 200
   \<and> snd (handleLogin testPlatform (loginRequest ''bob'' ''wrong'') disabledEnv 0 0 zeroBytes) = disabledEnv
   \<and> rheaders (fst (handleLogin testPlatform (loginRequest ''bob'' ''wrong'') disabledEnv 0 0 zeroBytes))
       ''Set-Cookie'' = None"
  using login_failure_no_effect [of testPlatform "loginRequest ''bob'' ''wrong''" disabledEnv 0 0 zeroBytes]
    login_401
  by simp

subsection \<open>Base64 text and the session token\<close>

lemma charCode_range: "0 \<le> charCode c \<and> charCode c < 256"
proof -
  have "charCode c = charCode c mod 256"
    by (simp add: charCode_def)
  moreover have "0 \<le> charCode c mod 256 \<and> charCode c mod 256 < 256"
    by simp
  ultimately show ?thesis by simp
qed

lemma charCode_char_of: "0 \<le> n \<Longrightarrow> n < 256 \<Longrightarrow> charCode (char_of n) = n"
  by (simp add: charCode_def)

lemma isB64_b64char:
  assumes "0 \<le> i" and "i < 64"
  shows "isB64 (b64char i)"
proof -
  consider "i < 26" | "26 \<le> i \<and> i < 52" | "52 \<le> i \<and> i < 62" | "i = 62" | "i = 63"
    using assms by linarith
  then show ?thesis
  proof cases
    case 1
    with assms show ?thesis
      by (simp add: b64char_def isB64_def isUpper_def charCode_char_of)
  next
    case 2
    then show ?thesis
      by (simp add: b64char_def isB64_def isLower_def charCode_char_of)
  next
    case 3
    then show ?thesis
      by (simp add: b64char_def isB64_def isDigit_def charCode_char_of)
  next
    case 4
    then show ?thesis by (simp add: b64char_def isB64_def)
  next
    case 5
    then show ?thesis by (simp add: b64char_def isB64_def)
  qed
qed

lemma sextet_hi: "0 \<le> a \<and> a < 256 \<Longrightarrow> isB64 (b64char (a div 4))"
  by (intro isB64_b64char) presburger+

lemma sextet_lo2: "isB64 (b64char (a mod 4 * 16))"
  by (intro isB64_b64char) presburger+

lemma sextet_mid1: "0 \<le> b \<and> b < 256 \<Longrightarrow> isB64 (b64char (a mod 4 * 16 + b div 16))"
  by (intro isB64_b64char) presburger+

lemma sextet_lo4: "isB64 (b64char (b mod 16 * 4))"
  by (intro isB64_b64char) presburger+

lemma sextet_mid2: "0 \<le> c \<and> c < 256 \<Longrightarrow> isB64 (b64char (b mod 16 * 4 + c div 64))"
  by (intro isB64_b64char) presburger+

lemma sextet_lo6: "isB64 (b64char (c mod 64))"
  by (intro isB64_b64char) presburger+

lemmas sextets = sextet_hi sextet_lo2 sextet_mid1 sextet_lo4 sextet_mid2 sextet_lo6

lemma b64encode_chars:
  "list_all (\<lambda>x. 0 \<le> x \<and> x < 256) xs \<Longrightarrow> list_all (\<lambda>c. isB64 c \<or> c = CHR ''='') (b64encode xs)"
proof (induction xs rule: b64encode.induct)
  case 1
  then show ?case by simp
next
  case (2 a)
  then show ?case by (simp add: sextets)
next
  case (3 a b)
  then show ?case by (simp add: sextets)
next
  case (4 a b c rest)
  then show ?case by (simp add: sextets)
qed

lemma b64encode_head:
  "xs \<noteq> [] \<Longrightarrow> list_all (\<lambda>x. 0 \<le> x \<and> x < 256) xs \<Longrightarrow> isB64 (hd (b64encode xs)) \<and> b64encode xs \<noteq> []"
  by (induction xs rule: b64encode.induct) (simp_all add: sextets)

lemma btoa_chars: "list_all (\<lambda>c. isB64 c \<or> c = CHR ''='') (btoa s)"
  unfolding btoa_def
  by (rule b64encode_chars) (simp add: list_all_iff charCode_range)

lemma not_isB64_dollar: "\<not> isB64 (CHR ''$'')"
  by code_simp

lemma not_isB64_pad: "\<not> isB64 (CHR ''='')"
  by code_simp

lemma btoa_no_dollar: "CHR ''$'' \<notin> set (btoa s)"
  using btoa_chars [of s] not_isB64_dollar by (auto simp: list_all_iff)

lemma make_user_hash_never_derived:
  "hash (make_user k slt nm pw rl mp mf ex) \<noteq> Some (btoa bits)"
proof
  assume "hash (make_user k slt nm pw rl mp mf ex) = Some (btoa bits)"
  then have "btoa bits = ''pbkdf2$'' @ ''sha256'' @ ''$'' @ natToString 120000 @ ''$'' @ btoa slt
      @ ''$'' @ btoa (k pw slt 120000 32)"
    by (simp add: make_user_def emptyDoc_def Let_def)
  then have "CHR ''$'' \<in> set (btoa bits)"
    by simp
  then show False
    using btoa_no_dollar by blast
qed

lemma b64encode_length: "length (b64encode xs) = 4 * ((length xs + 2) div 3)"
proof (induction xs rule: b64encode.induct)
  case (4 a b c rest)
  have "(length (a # b # c # rest) + 2) div 3 = (length rest + 2) div 3 + 1"
    by simp
  with 4 show ?case
    by simp
qed simp_all

lemma b64Random_length: "length (b64Random rnd n) \<le> 4 * ((n + 2) div 3)"
proof -
  have "length (b64Random rnd n) \<le> length (btoa (map rnd [0..<n]))"
    using length_dropWhile_le [of "\<lambda>c. c = CHR ''=''" "rev (btoa (map rnd [0..<n]))"]
    by (simp add: b64Random_def Let_def)
  also have "\<dots> = 4 * ((n + 2) div 3)"
    by (simp add: btoa_def b64encode_length)
  finally show ?thesis .
qed

lemma b64Random_chars: "list_all (\<lambda>c. isB64 c \<or> c = CHR ''='') (b64Random rnd n)"
proof -
  have "set (b64Random rnd n) \<subseteq> set (btoa (map rnd [0..<n]))"
    by (auto simp: b64Random_def Let_def dest: set_dropWhileD)
  then show ?thesis
    using btoa_chars [of "map rnd [0..<n]"] by (auto simp: list_all_iff)
qed

lemma base64_ascii: "isB64 c \<or> c = CHR ''='' \<Longrightarrow> charCode c < 128"
  by (auto simp: isB64_def isUpper_def isLower_def isDigit_def charCode_def)

lemma utf8Length_ascii: "list_all (\<lambda>c. charCode c < 128) s \<Longrightarrow> utf8Length s = length s"
  by (induction s) (simp_all add: utf8Length_def)

lemma utf8Length_append: "utf8Length (a @ b) = utf8Length a + utf8Length b"
  by (simp add: utf8Length_def)

lemma utf8Length_prefix: "utf8Length SESSION_PREFIX = 8"
  by (simp add: utf8Length_def SESSION_PREFIX_def charCode_def)

text \<open>The key under which \<^verbatim>\<open>createSession\<close> stores a session is within the limit.\<close>

lemma session_key_short: "\<not> KEY_LIMIT < utf8Length (SESSION_PREFIX @ b64Random rnd 24)"
proof -
  have "list_all (\<lambda>c. charCode c < 128) (b64Random rnd 24)"
    using b64Random_chars [of rnd 24] base64_ascii by (auto simp: list_all_iff)
  then have "utf8Length (b64Random rnd 24) = length (b64Random rnd 24)"
    by (rule utf8Length_ascii)
  moreover have "length (b64Random rnd 24) \<le> 32"
    using b64Random_length [of rnd 24] by simp
  ultimately show ?thesis
    by (simp add: utf8Length_append utf8Length_prefix KEY_LIMIT_def)
qed

lemma b64Random_nonempty:
  assumes "0 < n"
  shows "b64Random rnd n \<noteq> []"
proof -
  define arr where "arr = map rnd [0..<n]"
  have ne: "arr \<noteq> []"
    using assms by (simp add: arr_def)
  have h: "isB64 (hd (btoa arr)) \<and> btoa arr \<noteq> []"
    unfolding btoa_def using ne
    by (intro b64encode_head) (simp_all add: list_all_iff charCode_range)
  then have "hd (btoa arr) \<in> set (rev (btoa arr))" by simp
  moreover have "hd (btoa arr) \<noteq> CHR ''=''"
    using h not_isB64_pad by auto
  ultimately have "dropWhile (\<lambda>c. c = CHR ''='') (rev (btoa arr)) \<noteq> []"
    by auto
  then show ?thesis by (simp add: b64Random_def Let_def arr_def)
qed

lemma floor_seconds: "(now div 1000 < ex) = (now < ex * (1000::int))"
proof -
  have "now = 1000 * (now div 1000) + now mod 1000"
    by simp
  moreover have "0 \<le> now mod 1000" and "now mod 1000 < 1000"
    by simp_all
  ultimately show ?thesis
    by linarith
qed

lemma live_iff: "exp d = Some ex \<Longrightarrow> sessionLive (Some d) now = (now < ex * 1000)"
  by (simp add: sessionLive_def floor_seconds)

subsection \<open>The outcomes of the guard\<close>

lemma guardExtract_cookie_thrown:
  assumes "getCookie P req SESSION_COOKIE = Inl e"
  shows "guardExtract P req env now = Inl e"
  using assms by (simp add: guardExtract_def)

lemma guardExtract_store_thrown:
  assumes "getCookie P req SESSION_COOKIE = Inr tok" and "getSession P env tok = Inl e"
  shows "guardExtract P req env now = Inl e"
  using assms by (simp add: guardExtract_def)

lemma guardExtract_session:
  assumes "getCookie P req SESSION_COOKIE = Inr tok"
    and "getSession P env tok = Inr (Some s)"
    and "sessionLive (Some s) now"
  shows "guardExtract P req env now =
     Inr (Allowed (Session (username s) (case roles s of None \<Rightarrow> [] | Some r \<Rightarrow> r)) None)"
  using assms by (simp add: guardExtract_def Let_def)

lemma guardExtract_trial_thrown:
  assumes "getCookie P req SESSION_COOKIE = Inr tok" and "getSession P env tok = Inr sess"
    and "\<not> sessionLive sess now" and "readTrialCookie P req = Inl e"
  shows "guardExtract P req env now = Inl e"
  using assms by (simp add: guardExtract_def)

lemma guardExtract_trial:
  assumes "getCookie P req SESSION_COOKIE = Inr tok" and "getSession P env tok = Inr sess"
    and "\<not> sessionLive sess now"
    and "readTrialCookie P req = Inr used"
  shows "guardExtract P req env now =
     (if 3 \<le> used then Inr (Denied (trialExhausted env))
      else Inr (Allowed (Trial (addNum used 1))
             (Some [''Set-Cookie'' \<mapsto>
                setCookie P TRIAL_COOKIE (numToString P (addNum used 1)) trialCookieOpts])))"
  using assms by (simp add: guardExtract_def Let_def trialExceeded_def TRIAL_LIMIT_def)

lemma trialExhausted_status: "rstatus (trialExhausted env) = 429"
  by (simp add: trialExhausted_def bad_status)

lemma trialExhausted_no_cookie: "rheaders (trialExhausted env) ''Set-Cookie'' = None"
  by (simp add: trialExhausted_def bad_no_cookie)

lemma server_error_status: "rstatus (server_error e env) = 500"
  by (simp add: server_error_def bad_status)

lemma server_error_no_cookie: "rheaders (server_error e env) ''Set-Cookie'' = None"
  by (simp add: server_error_def bad_no_cookie)

subsection \<open>Sessions\<close>

lemma guardExtract_store_irrelevant:
  assumes "getCookie P req SESSION_COOKIE = Inr tok"
    and "getSession P (env\<lparr>USERS := m\<rparr>) tok = Inr s" and "\<not> sessionLive s now"
    and "getSession P (env\<lparr>USERS := m'\<rparr>) tok = Inr s'" and "\<not> sessionLive s' now"
  shows "guardExtract P req (env\<lparr>USERS := m\<rparr>) now = guardExtract P req (env\<lparr>USERS := m'\<rparr>) now"
  using assms
  by (simp add: guardExtract_def Let_def trialExhausted_def env_upd_responses split: sum.split)

text \<open>
  C7. After \<^verbatim>\<open>createSession\<close>, \<^verbatim>\<open>getSession\<close> under the new token returns the record with
  the same user name and roles, and the expiry is the creation time in seconds plus 30
  days. For a request that carries the token, the guard answers in session mode with
  that user name and those roles at every instant before the expiry; from the expiry on
  it answers as it does on a namespace without the record.
\<close>

theorem session_lookup_until_expiry:
  assumes "createSession env u rs t0 rnd = ((token, ex), env')"
    and "getCookie P req SESSION_COOKIE = Inr (Some token)"
  shows "getSession P env' (Some token)
           = Inr (Some (emptyDoc\<lparr>username := Some u, exp := Some ex, roles := Some rs\<rparr>))
       \<and> ex = t0 div 1000 + 60 * 60 * 24 * 30
       \<and> (now < ex * 1000 \<longrightarrow>
            guardExtract P req env' now = Inr (Allowed (Session (Some u) rs) None))
       \<and> (ex * 1000 \<le> now \<longrightarrow>
            guardExtract P req env' now
              = guardExtract P req (env'\<lparr>USERS := (USERS env')(SESSION_PREFIX @ token := None)\<rparr>) now)"
proof -
  have tok: "token = b64Random rnd 24" and ex: "ex = t0 div 1000 + SESSION_TTL_SECONDS"
    and env': "env' = env\<lparr>USERS := (USERS env)(SESSION_PREFIX @ token \<mapsto>
             \<lparr>content = emptyDoc\<lparr>username := Some u, exp := Some ex, roles := Some rs\<rparr>,
              expirationTtl = Some SESSION_TTL_SECONDS\<rparr>)\<rparr>"
    using assms(1) by (auto simp: createSession_def Let_def)
  have ne: "token \<noteq> []"
    using tok by (simp add: b64Random_nonempty)
  have short: "\<not> KEY_LIMIT < utf8Length (SESSION_PREFIX @ token)"
    unfolding tok by (rule session_key_short)
  have get: "getSession P env' (Some token)
      = Inr (Some (emptyDoc\<lparr>username := Some u, exp := Some ex, roles := Some rs\<rparr>))"
    using ne short by (simp add: getSession_def kvGet_def env')
  have live: "sessionLive (Some (emptyDoc\<lparr>username := Some u, exp := Some ex, roles := Some rs\<rparr>)) now
      = (now < ex * 1000)"
    by (rule live_iff) simp
  have before: "guardExtract P req env' now = Inr (Allowed (Session (Some u) rs) None)"
    if "now < ex * 1000"
    using guardExtract_session [OF assms(2) get] live that by simp
  have gone: "getSession P (env'\<lparr>USERS := (USERS env')(SESSION_PREFIX @ token := None)\<rparr>) (Some token)
      = Inr None"
    using ne short by (simp add: getSession_def kvGet_def)
  have after: "guardExtract P req env' now
      = guardExtract P req (env'\<lparr>USERS := (USERS env')(SESSION_PREFIX @ token := None)\<rparr>) now"
    if "ex * 1000 \<le> now"
  proof -
    have 1: "getSession P (env'\<lparr>USERS := USERS env'\<rparr>) (Some token)
        = Inr (Some (emptyDoc\<lparr>username := Some u, exp := Some ex, roles := Some rs\<rparr>))"
      using get by simp
    have 2: "\<not> sessionLive (Some (emptyDoc\<lparr>username := Some u, exp := Some ex, roles := Some rs\<rparr>)) now"
      using live that by simp
    have 3: "\<not> sessionLive None now"
      by (simp add: sessionLive_def)
    show ?thesis
      using guardExtract_store_irrelevant [OF assms(2) 1 2 gone 3] by simp
  qed
  show ?thesis
    using get ex before after by (simp add: SESSION_TTL_SECONDS_def)
qed

lemma zero_token: "b64Random zeroBytes 24 = zeroToken"
  by code_simp

lemma fresh_session:
  "createSession testEnv ''alice'' [''admin''] 5000 zeroBytes = ((zeroToken, 2592005), sessionEnv)"
  by (simp add: sessionEnv_def createSession_def Let_def zero_token SESSION_TTL_SECONDS_def)

lemma session_cookie_read:
  "getCookie testPlatform sessionRequest SESSION_COOKIE = Inr (Some zeroToken)"
  by code_simp

theorem session_lookup_until_expiry_witness:
  "getSession testPlatform sessionEnv (Some zeroToken)
     = Inr (Some (emptyDoc\<lparr>username := Some ''alice'', exp := Some 2592005,
                          roles := Some [''admin'']\<rparr>))
   \<and> guardExtract testPlatform sessionRequest sessionEnv 2592004999
     = Inr (Allowed (Session (Some ''alice'') [''admin'']) None)
   \<and> guardExtract testPlatform sessionRequest sessionEnv 2592005000
     = guardExtract testPlatform sessionRequest
         (sessionEnv\<lparr>USERS := (USERS sessionEnv)(SESSION_PREFIX @ zeroToken := None)\<rparr>) 2592005000"
proof -
  have before: "(2592004999::int) < 2592005 * 1000" and after: "(2592005::int) * 1000 \<le> 2592005000"
    by simp_all
  show ?thesis
    using
      session_lookup_until_expiry [OF fresh_session session_cookie_read, of 2592004999]
      session_lookup_until_expiry [OF fresh_session session_cookie_read, of 2592005000]
      before after
    by blast
qed

subsection \<open>The extract handler\<close>

lemma fetch_extract:
  assumes "http_method req = ''POST''" and "pathname req = ''/api/extract''"
  shows "fetch P req env now now' rnd =
     (case handleExtract P req env now of
        (Inl e, calls) \<Rightarrow> (server_error e env, env, calls)
      | (Inr r, calls) \<Rightarrow> (r, env, calls))"
  using assms by (simp add: fetch_def)

lemma extractWithGPT_file: "extractWithGPT P env (imgs, FFile) = (Inl (notFunction P), [])"
  by (simp add: extractWithGPT_def)

lemma extractWithGPT_text:
  "extractWithGPT P env (imgs, FString d)
   = (openai P (OPENAI_API_KEY env) (buildContent imgs d), [buildContent imgs d])"
  by (simp add: extractWithGPT_def Let_def)

text \<open>
  C4, as the code has it. An extract request whose form parses and has two or more
  images, from a caller without a live session, makes no outbound call, and its answer
  is: the router's 500 when the session cookie does not decode, when the read of the
  session throws, or when the trial cookie does not decode; 429 \<^verbatim>\<open>trial_exhausted\<close>
  when the trial count is 3 or more, since the guard tests the count before the form is
  parsed; 403 \<^verbatim>\<open>trial_one_page_only\<close> when the count is below 3.
\<close>

theorem trial_many_images:
  assumes "http_method req = ''POST''" and "pathname req = ''/api/extract''"
    and "parseFormData req = Inr (imgs, t)" and "2 \<le> length imgs"
  shows "(getCookie P req SESSION_COOKIE = Inl e \<longrightarrow>
            fetch P req env now now' rnd = (server_error e env, env, []))
       \<and> (getCookie P req SESSION_COOKIE = Inr tok \<and> getSession P env tok = Inl e \<longrightarrow>
            fetch P req env now now' rnd = (server_error e env, env, []))
       \<and> (getCookie P req SESSION_COOKIE = Inr tok \<and> getSession P env tok = Inr sess
            \<and> \<not> sessionLive sess now \<and> readTrialCookie P req = Inl e \<longrightarrow>
            fetch P req env now now' rnd = (server_error e env, env, []))
       \<and> (getCookie P req SESSION_COOKIE = Inr tok \<and> getSession P env tok = Inr sess
            \<and> \<not> sessionLive sess now \<and> readTrialCookie P req = Inr used \<and> 3 \<le> used \<longrightarrow>
            fetch P req env now now' rnd = (trialExhausted env, env, []))
       \<and> (getCookie P req SESSION_COOKIE = Inr tok \<and> getSession P env tok = Inr sess
            \<and> \<not> sessionLive sess now \<and> readTrialCookie P req = Inr used \<and> used < 3 \<longrightarrow>
            fetch P req env now now' rnd
              = (bad (JObj [(''error'', JStr ''trial_one_page_only'')]) env 403, env, []))
       \<and> rstatus (server_error e env) = 500 \<and> rstatus (trialExhausted env) = 429"
proof (intro conjI impI)
  assume "getCookie P req SESSION_COOKIE = Inl e"
  then show "fetch P req env now now' rnd = (server_error e env, env, [])"
    using assms(1,2) by (simp add: fetch_extract handleExtract_def guardExtract_cookie_thrown)
next
  assume "getCookie P req SESSION_COOKIE = Inr tok \<and> getSession P env tok = Inl e"
  then show "fetch P req env now now' rnd = (server_error e env, env, [])"
    using assms(1,2) by (simp add: fetch_extract handleExtract_def guardExtract_store_thrown)
next
  assume "getCookie P req SESSION_COOKIE = Inr tok \<and> getSession P env tok = Inr sess
            \<and> \<not> sessionLive sess now \<and> readTrialCookie P req = Inl e"
  then show "fetch P req env now now' rnd = (server_error e env, env, [])"
    using assms(1,2) by (simp add: fetch_extract handleExtract_def guardExtract_trial_thrown)
next
  assume "getCookie P req SESSION_COOKIE = Inr tok \<and> getSession P env tok = Inr sess
            \<and> \<not> sessionLive sess now \<and> readTrialCookie P req = Inr used \<and> 3 \<le> used"
  then show "fetch P req env now now' rnd = (trialExhausted env, env, [])"
    using assms(1,2) by (simp add: fetch_extract handleExtract_def guardExtract_trial)
next
  assume "getCookie P req SESSION_COOKIE = Inr tok \<and> getSession P env tok = Inr sess
            \<and> \<not> sessionLive sess now \<and> readTrialCookie P req = Inr used \<and> used < 3"
  then show "fetch P req env now now' rnd
      = (bad (JObj [(''error'', JStr ''trial_one_page_only'')]) env 403, env, [])"
    using assms by (simp add: fetch_extract handleExtract_def guardExtract_trial)
next
  show "rstatus (server_error e env) = 500"
    by (rule server_error_status)
next
  show "rstatus (trialExhausted env) = 429"
    by (rule trialExhausted_status)
qed

lemma extract_route:
  "http_method (extractRequest ck form) = ''POST''"
  "pathname (extractRequest ck form) = ''/api/extract''"
  by (simp_all add: extractRequest_def)

lemma two_images_form:
  "parseFormData (extractRequest ck (images 2))
   = Inr ([''data:image/jpeg;base64,AAAA'', ''data:image/jpeg;base64,AAAA''], FString [])"
  by (simp add: parseFormData_def extractRequest_def images_def numeral_2_eq_2)

lemma two_images_length:
  "2 \<le> length [''data:image/jpeg;base64,AAAA'', ''data:image/jpeg;base64,AAAA'']"
  by simp

lemma bad_session_cookie:
  "getCookie testPlatform (extractRequest (Some ''sess=%; trial=1'') (images 2)) SESSION_COOKIE
   = Inl (Exn ''URIError'' ''URI malformed'')"
  by code_simp

lemma long_session_cookie:
  "getCookie testPlatform (extractRequest (Some longSessionCookie) (images 2)) SESSION_COOKIE
   = Inr (Some (replicate 505 (CHR ''t'')))"
  by code_simp

lemma long_session_key:
  "getSession testPlatform testEnv (Some (replicate 505 (CHR ''t'')))
   = Inl (Exn ''Error'' ''KV GET failed: 414 key too long'')"
  by code_simp

lemma no_session_cookie:
  "getCookie testPlatform (extractRequest (Some ''trial=%'') (images 2)) SESSION_COOKIE = Inr None"
  "getCookie testPlatform (extractRequest (Some ''trial=3'') (images 2)) SESSION_COOKIE = Inr None"
  "getCookie testPlatform (extractRequest (Some ''trial=1'') (images 2)) SESSION_COOKIE = Inr None"
  by code_simp+

lemma no_token_no_session: "getSession P env None = Inr None"
  by (simp add: getSession_def)

lemma none_not_live: "\<not> sessionLive None now"
  by (simp add: sessionLive_def)

lemma two_images_reads:
  "readTrialCookie testPlatform (extractRequest (Some ''trial=%'') (images 2))
   = Inl (Exn ''URIError'' ''URI malformed'')"
  "readTrialCookie testPlatform (extractRequest (Some ''trial=3'') (images 2)) = Inr 3"
  "readTrialCookie testPlatform (extractRequest (Some ''trial=1'') (images 2)) = Inr 1"
  by code_simp+

theorem trial_many_images_witness:
  "fetch testPlatform (extractRequest (Some ''sess=%; trial=1'') (images 2)) testEnv 0 0 zeroBytes
     = (server_error (Exn ''URIError'' ''URI malformed'') testEnv, testEnv, [])
   \<and> fetch testPlatform (extractRequest (Some longSessionCookie) (images 2)) testEnv 0 0 zeroBytes
     = (server_error (Exn ''Error'' ''KV GET failed: 414 key too long'') testEnv, testEnv, [])
   \<and> fetch testPlatform (extractRequest (Some ''trial=%'') (images 2)) testEnv 0 0 zeroBytes
     = (server_error (Exn ''URIError'' ''URI malformed'') testEnv, testEnv, [])
   \<and> fetch testPlatform (extractRequest (Some ''trial=3'') (images 2)) testEnv 0 0 zeroBytes
     = (trialExhausted testEnv, testEnv, [])
   \<and> fetch testPlatform (extractRequest (Some ''trial=1'') (images 2)) testEnv 0 0 zeroBytes
     = (bad (JObj [(''error'', JStr ''trial_one_page_only'')]) testEnv 403, testEnv, [])"
proof -
  note inst = trial_many_images [where P = testPlatform and env = testEnv and now = 0
    and now' = 0 and rnd = zeroBytes, OF extract_route two_images_form two_images_length]
  have 1: "fetch testPlatform (extractRequest (Some ''sess=%; trial=1'') (images 2)) testEnv 0 0 zeroBytes
      = (server_error (Exn ''URIError'' ''URI malformed'') testEnv, testEnv, [])"
    using inst [where e = "Exn ''URIError'' ''URI malformed''", THEN conjunct1] bad_session_cookie
    by blast
  have 2: "fetch testPlatform (extractRequest (Some longSessionCookie) (images 2)) testEnv 0 0 zeroBytes
      = (server_error (Exn ''Error'' ''KV GET failed: 414 key too long'') testEnv, testEnv, [])"
    using inst [where tok = "Some (replicate 505 (CHR ''t''))"
        and e = "Exn ''Error'' ''KV GET failed: 414 key too long''", THEN conjunct2, THEN conjunct1]
      long_session_cookie long_session_key
    by blast
  have 3: "fetch testPlatform (extractRequest (Some ''trial=%'') (images 2)) testEnv 0 0 zeroBytes
      = (server_error (Exn ''URIError'' ''URI malformed'') testEnv, testEnv, [])"
    using inst [where tok = None and sess = None and e = "Exn ''URIError'' ''URI malformed''",
        THEN conjunct2, THEN conjunct2, THEN conjunct1]
      no_session_cookie(1) no_token_no_session [of testPlatform testEnv] none_not_live [of 0]
      two_images_reads(1)
    by blast
  have 4: "fetch testPlatform (extractRequest (Some ''trial=3'') (images 2)) testEnv 0 0 zeroBytes
      = (trialExhausted testEnv, testEnv, [])"
    using inst [where tok = None and sess = None and used = 3,
        THEN conjunct2, THEN conjunct2, THEN conjunct2, THEN conjunct1]
      no_session_cookie(2) no_token_no_session [of testPlatform testEnv] none_not_live [of 0]
      two_images_reads(2)
    by simp
  have 5: "fetch testPlatform (extractRequest (Some ''trial=1'') (images 2)) testEnv 0 0 zeroBytes
      = (bad (JObj [(''error'', JStr ''trial_one_page_only'')]) testEnv 403, testEnv, [])"
    using inst [where tok = None and sess = None and used = 1,
        THEN conjunct2, THEN conjunct2, THEN conjunct2, THEN conjunct2, THEN conjunct1]
      no_session_cookie(3) no_token_no_session [of testPlatform testEnv] none_not_live [of 0]
      two_images_reads(3)
    by simp
  from 1 2 3 4 5 show ?thesis
    by (intro conjI)
qed

text \<open>
  C4 as stated fails: no session, trial count 3, two images; the answer is 429
  \<^verbatim>\<open>trial_exhausted\<close>, not 403.
\<close>

theorem exhausted_before_page_check:
  "getCookie testPlatform (extractRequest (Some ''trial=3'') (images 2)) SESSION_COOKIE = Inr None
   \<and> readTrialCookie testPlatform (extractRequest (Some ''trial=3'') (images 2)) = Inr 3
   \<and> map_sum id (\<lambda>p. length (fst p)) (parseFormData (extractRequest (Some ''trial=3'') (images 2))) = Inr 2
   \<and> rstatus (fst (fetch testPlatform (extractRequest (Some ''trial=3'') (images 2)) testEnv 0 0 zeroBytes)) = 429
   \<and> rbody (fst (fetch testPlatform (extractRequest (Some ''trial=3'') (images 2)) testEnv 0 0 zeroBytes))
      = Json (JObj [(''error'', JStr ''trial_exhausted''),
                    (''hint'', JStr ''Trial limit reached. Please login to continue.'')])"
  by code_simp






lemma natToString_604800: "natToString 604800 = ''604800''"
  by (simp add: natToString.simps char_of_def)

lemma trial_cookie_text:
  "setCookie P TRIAL_COOKIE v trialCookieOpts
   = ''trial='' @ encodeURIComponent v @ ''; Max-Age=604800; Path=/; HttpOnly; SameSite=None; Secure''"
  by (simp add: setCookie_def TRIAL_COOKIE_def trialCookieOpts_def numToString_def
      natToString_604800 sameSiteName_def)

lemma roundNat_small: "a < 2 ^ 53 \<Longrightarrow> roundNat a = a"
  by (simp add: roundNat_def Let_def expo.simps)

lemma addNum_exact: "- (2 ^ 53) \<le> used \<Longrightarrow> used < 2 ^ 53 - 1 \<Longrightarrow> addNum used 1 = used + 1"
  by (simp add: addNum_def roundNat_small)

text \<open>
  C8, as the code has it. Take an extract request that the guard decides in trial
  mode: its session cookie decodes, the read of the session returns and finds no live
  session, and its trial cookie decodes to a count. With a count of 3 or more the
  answer is the guard's 429. With a count below 3: a form that does not parse gives the
  router's 500; two or more images give the 403; at most one image and a \<^verbatim>\<open>doc_text\<close>
  that is a file give the router's 500, with nothing sent; at most one image and a text
  give, when the extraction API call throws, the router's 500, and when it returns, the
  200 with the trial cookie for the incremented count and a \<^verbatim>\<open>Max-Age\<close> of 604800 seconds
  (7 days). The 200 is the only answer with a \<^verbatim>\<open>Set-Cookie\<close> header. The increment is the
  count plus one for every count from \<open>-2^53\<close> on.
\<close>

theorem trial_cookie_effect:
  assumes "http_method req = ''POST''" and "pathname req = ''/api/extract''"
    and "getCookie P req SESSION_COOKIE = Inr tok" and "getSession P env tok = Inr sess"
    and "\<not> sessionLive sess now" and "readTrialCookie P req = Inr used"
  shows "(3 \<le> used \<longrightarrow>
            fetch P req env now now' rnd = (trialExhausted env, env, [])
            \<and> rstatus (trialExhausted env) = 429
            \<and> rheaders (trialExhausted env) ''Set-Cookie'' = None)
       \<and> (used < 3 \<and> parseFormData req = Inl e \<longrightarrow>
            fetch P req env now now' rnd = (server_error e env, env, []))
       \<and> (used < 3 \<and> parseFormData req = Inr (imgs, t) \<and> 1 < length imgs \<longrightarrow>
            fetch P req env now now' rnd
              = (bad (JObj [(''error'', JStr ''trial_one_page_only'')]) env 403, env, [])
            \<and> rheaders (bad (JObj [(''error'', JStr ''trial_one_page_only'')]) env 403) ''Set-Cookie''
               = None)
       \<and> (used < 3 \<and> parseFormData req = Inr (imgs, FFile) \<and> length imgs \<le> 1 \<longrightarrow>
            fetch P req env now now' rnd = (server_error (notFunction P) env, env, []))
       \<and> (used < 3 \<and> parseFormData req = Inr (imgs, FString d) \<and> length imgs \<le> 1
            \<and> openai P (OPENAI_API_KEY env) (buildContent imgs d) = Inl e \<longrightarrow>
            fetch P req env now now' rnd = (server_error e env, env, [buildContent imgs d]))
       \<and> (used < 3 \<and> parseFormData req = Inr (imgs, FString d) \<and> length imgs \<le> 1
            \<and> openai P (OPENAI_API_KEY env) (buildContent imgs d) = Inr js \<longrightarrow>
            (\<exists>r. fetch P req env now now' rnd = (r, env, [buildContent imgs d])
               \<and> rstatus r = 200 \<and> rbody r = Json js
               \<and> rheaders r ''Set-Cookie''
                  = Some (''trial='' @ encodeURIComponent (numToString P (addNum used 1))
                          @ ''; Max-Age=604800; Path=/; HttpOnly; SameSite=None; Secure'')))
       \<and> rstatus (server_error e env) = 500
       \<and> rheaders (server_error e env) ''Set-Cookie'' = None
       \<and> (- (2 ^ 53) \<le> used \<and> used < 3 \<longrightarrow> addNum used 1 = used + 1)"
proof -
  note route = fetch_extract [OF assms(1,2)]
  note guard = guardExtract_trial [OF assms(3-6)]
  have exhausted: "fetch P req env now now' rnd = (trialExhausted env, env, [])" if "3 \<le> used"
    using that by (simp add: route handleExtract_def guard)
  have unparsed: "fetch P req env now now' rnd = (server_error e env, env, [])"
    if "used < 3 \<and> parseFormData req = Inl e"
    using that by (simp add: route handleExtract_def guard)
  have pages: "fetch P req env now now' rnd
      = (bad (JObj [(''error'', JStr ''trial_one_page_only'')]) env 403, env, [])"
    if "used < 3 \<and> parseFormData req = Inr (imgs, t) \<and> 1 < length imgs"
    using that by (simp add: route handleExtract_def guard)
  have isfile: "fetch P req env now now' rnd = (server_error (notFunction P) env, env, [])"
    if "used < 3 \<and> parseFormData req = Inr (imgs, FFile) \<and> length imgs \<le> 1"
    using that by (simp add: route handleExtract_def guard extractWithGPT_file)
  have thrown: "fetch P req env now now' rnd = (server_error e env, env, [buildContent imgs d])"
    if "used < 3 \<and> parseFormData req = Inr (imgs, FString d) \<and> length imgs \<le> 1
        \<and> openai P (OPENAI_API_KEY env) (buildContent imgs d) = Inl e"
    using that by (simp add: route handleExtract_def guard extractWithGPT_text)
  have returned: "\<exists>r. fetch P req env now now' rnd = (r, env, [buildContent imgs d])
               \<and> rstatus r = 200 \<and> rbody r = Json js
               \<and> rheaders r ''Set-Cookie''
                  = Some (''trial='' @ encodeURIComponent (numToString P (addNum used 1))
                          @ ''; Max-Age=604800; Path=/; HttpOnly; SameSite=None; Secure'')"
    if "used < 3 \<and> parseFormData req = Inr (imgs, FString d) \<and> length imgs \<le> 1
        \<and> openai P (OPENAI_API_KEY env) (buildContent imgs d) = Inr js"
    using that
    by (simp add: route handleExtract_def guard extractWithGPT_text trial_cookie_text)
  have exact: "addNum used 1 = used + 1" if "- (2 ^ 53) \<le> used \<and> used < 3"
    using that by (intro addNum_exact) auto
  show ?thesis
    using exhausted unparsed pages isfile thrown returned exact
      trialExhausted_status [of env] trialExhausted_no_cookie [of env]
      bad_no_cookie [of "JObj [(''error'', JStr ''trial_one_page_only'')]" env 403]
      server_error_status [of e env] server_error_no_cookie [of e env]
    by blast
qed

lemma trial_cookie_matches:
  "cookieMatch ''trial=1'' SESSION_COOKIE = None" "cookieMatch ''trial=1'' TRIAL_COOKIE = Some ''1''"
  "cookieMatch ''trial=3'' SESSION_COOKIE = None" "cookieMatch ''trial=3'' TRIAL_COOKIE = Some ''3''"
  "parseInt ''1'' = Num 1" "parseInt ''3'' = Num 3"
  by code_simp+

lemma trial1_cookies:
  assumes "cookie_header req = Some ''trial=1''"
  shows "getCookie P req SESSION_COOKIE = Inr None" and "readTrialCookie P req = Inr 1"
  using assms
  by (simp_all add: getCookie_def readTrialCookie_def trial_cookie_matches decodeURIComponent_def)

lemma trial3_cookies:
  assumes "cookie_header req = Some ''trial=3''"
  shows "getCookie P req SESSION_COOKIE = Inr None" and "readTrialCookie P req = Inr 3"
  using assms
  by (simp_all add: getCookie_def readTrialCookie_def trial_cookie_matches decodeURIComponent_def)

lemma extractRequest_cookie: "cookie_header (extractRequest ck form) = ck"
  by (simp add: extractRequest_def)

lemma forms:
  "parseFormData ((extractRequest ck [])\<lparr>form_data := Inl e\<rparr>) = Inl e"
  "parseFormData (extractRequest ck [(''doc_text'', FFile)]) = Inr ([], FFile)"
  "parseFormData (extractRequest ck []) = Inr ([], FString [])"
  "parseFormData (extractRequest ck (images 1)) = Inr ([''data:image/jpeg;base64,AAAA''], FString [])"
  by (simp_all add: parseFormData_def extractRequest_def images_def)

lemma openai_no_image:
  "openai testPlatform (OPENAI_API_KEY testEnv) (buildContent [] [])
   = Inl (Exn ''Error'' ''OpenAI error: 400 '')"
  by (simp add: testPlatform_def buildContent_def trim_def)

lemma openai_one_image:
  "openai testPlatform (OPENAI_API_KEY testEnv) (buildContent [''data:image/jpeg;base64,AAAA''] [])
   = Inr (JObj [])"
  by (simp add: testPlatform_def buildContent_def trim_def)

lemma cookie_value_2: "(encodeURIComponent (numToString testPlatform (addNum 1 1)) = ''2'') = True"
  by code_simp

lemma notFunction_test:
  "notFunction testPlatform = Exn ''TypeError'' ''parts.docText?.trim is not a function''"
  by (simp add: testPlatform_def)

theorem trial_cookie_effect_witness:
  "fetch testPlatform (extractRequest (Some ''trial=3'') (images 1)) testEnv 0 0 zeroBytes
     = (trialExhausted testEnv, testEnv, [])
   \<and> fetch testPlatform
        ((extractRequest (Some ''trial=1'') [])\<lparr>form_data := Inl (Exn ''TypeError'' ''not a form'')\<rparr>)
        testEnv 0 0 zeroBytes
     = (server_error (Exn ''TypeError'' ''not a form'') testEnv, testEnv, [])
   \<and> fetch testPlatform (extractRequest (Some ''trial=1'') (images 2)) testEnv 0 0 zeroBytes
     = (bad (JObj [(''error'', JStr ''trial_one_page_only'')]) testEnv 403, testEnv, [])
   \<and> fetch testPlatform (extractRequest (Some ''trial=1'') [(''doc_text'', FFile)]) testEnv 0 0 zeroBytes
     = (server_error (Exn ''TypeError'' ''parts.docText?.trim is not a function'') testEnv,
        testEnv, [])
   \<and> fetch testPlatform (extractRequest (Some ''trial=1'') []) testEnv 0 0 zeroBytes
     = (server_error (Exn ''Error'' ''OpenAI error: 400 '') testEnv, testEnv, [buildContent [] []])
   \<and> (\<exists>r. fetch testPlatform (extractRequest (Some ''trial=1'') (images 1)) testEnv 0 0 zeroBytes
            = (r, testEnv, [buildContent [''data:image/jpeg;base64,AAAA''] []])
          \<and> rstatus r = 200 \<and> rbody r = Json (JObj [])
          \<and> rheaders r ''Set-Cookie''
             = Some ''trial=2; Max-Age=604800; Path=/; HttpOnly; SameSite=None; Secure'')
   \<and> addNum 1 1 = 2"
proof -
  note inst = trial_cookie_effect [where P = testPlatform and env = testEnv and now = 0
    and now' = 0 and rnd = zeroBytes and tok = None and sess = None]
  note c1 = trial1_cookies [where P = testPlatform, OF extractRequest_cookie]
  note c3 = trial3_cookies [where P = testPlatform, OF extractRequest_cookie]
  have 1: "fetch testPlatform (extractRequest (Some ''trial=3'') (images 1)) testEnv 0 0 zeroBytes
      = (trialExhausted testEnv, testEnv, [])"
    using inst [where req = "extractRequest (Some ''trial=3'') (images 1)" and used = 3,
        OF extract_route c3(1) no_token_no_session none_not_live c3(2), THEN conjunct1]
    by simp
  define broken where "broken = (extractRequest (Some ''trial=1'') [])
      \<lparr>form_data := Inl (Exn ''TypeError'' ''not a form'')\<rparr>"
  have b: "http_method broken = ''POST''" "pathname broken = ''/api/extract''"
    "cookie_header broken = Some ''trial=1''"
    "parseFormData broken = Inl (Exn ''TypeError'' ''not a form'')"
    by (simp_all add: broken_def extractRequest_def parseFormData_def)
  have 2: "fetch testPlatform broken testEnv 0 0 zeroBytes
      = (server_error (Exn ''TypeError'' ''not a form'') testEnv, testEnv, [])"
    using inst [where req = broken and used = 1 and e = "Exn ''TypeError'' ''not a form''",
        OF b(1,2) trial1_cookies(1) [OF b(3)] no_token_no_session none_not_live
          trial1_cookies(2) [OF b(3)],
        THEN conjunct2, THEN conjunct1] b(4)
    by simp
  have 3: "fetch testPlatform (extractRequest (Some ''trial=1'') (images 2)) testEnv 0 0 zeroBytes
      = (bad (JObj [(''error'', JStr ''trial_one_page_only'')]) testEnv 403, testEnv, [])"
    using inst [where req = "extractRequest (Some ''trial=1'') (images 2)" and used = 1
        and imgs = "[''data:image/jpeg;base64,AAAA'', ''data:image/jpeg;base64,AAAA'']"
        and t = "FString []",
        OF extract_route c1(1) no_token_no_session none_not_live c1(2),
        THEN conjunct2, THEN conjunct2, THEN conjunct1]
      two_images_form [where ck = "Some ''trial=1''"]
    by simp
  have 4: "fetch testPlatform (extractRequest (Some ''trial=1'') [(''doc_text'', FFile)]) testEnv 0 0
        zeroBytes
      = (server_error (Exn ''TypeError'' ''parts.docText?.trim is not a function'') testEnv,
         testEnv, [])"
    using inst [where req = "extractRequest (Some ''trial=1'') [(''doc_text'', FFile)]"
        and used = 1 and imgs = "[]",
        OF extract_route c1(1) no_token_no_session none_not_live c1(2),
        THEN conjunct2, THEN conjunct2, THEN conjunct2, THEN conjunct1]
      forms(2) [where ck = "Some ''trial=1''"]
    by (simp add: notFunction_test)
  have 5: "fetch testPlatform (extractRequest (Some ''trial=1'') []) testEnv 0 0 zeroBytes
      = (server_error (Exn ''Error'' ''OpenAI error: 400 '') testEnv, testEnv, [buildContent [] []])"
    using inst [where req = "extractRequest (Some ''trial=1'') []" and used = 1
        and imgs = "[]" and d = "[]" and e = "Exn ''Error'' ''OpenAI error: 400 ''",
        OF extract_route c1(1) no_token_no_session none_not_live c1(2),
        THEN conjunct2, THEN conjunct2, THEN conjunct2, THEN conjunct2, THEN conjunct1]
      forms(3) [where ck = "Some ''trial=1''"] openai_no_image
    by simp
  have 6: "\<exists>r. fetch testPlatform (extractRequest (Some ''trial=1'') (images 1)) testEnv 0 0 zeroBytes
            = (r, testEnv, [buildContent [''data:image/jpeg;base64,AAAA''] []])
          \<and> rstatus r = 200 \<and> rbody r = Json (JObj [])
          \<and> rheaders r ''Set-Cookie''
             = Some ''trial=2; Max-Age=604800; Path=/; HttpOnly; SameSite=None; Secure''"
    using inst [where req = "extractRequest (Some ''trial=1'') (images 1)" and used = 1
        and imgs = "[''data:image/jpeg;base64,AAAA'']" and d = "[]" and js = "JObj []",
        OF extract_route c1(1) no_token_no_session none_not_live c1(2),
        THEN conjunct2, THEN conjunct2, THEN conjunct2, THEN conjunct2, THEN conjunct2,
        THEN conjunct1]
      forms(4) [where ck = "Some ''trial=1''"] openai_one_image cookie_value_2
    by simp
  have 7: "addNum 1 1 = 2"
    using inst [where req = "extractRequest (Some ''trial=1'') []" and used = 1,
        OF extract_route c1(1) no_token_no_session none_not_live c1(2),
        THEN conjunct2, THEN conjunct2, THEN conjunct2, THEN conjunct2, THEN conjunct2,
        THEN conjunct2, THEN conjunct2, THEN conjunct2]
    by simp
  from 1 2 3 4 5 6 7 show ?thesis
    unfolding broken_def by (intro conjI)
qed

text \<open>
  C8 as stated fails: the guard allows the request in trial mode with count 1 and the
  cookie \<^verbatim>\<open>trial=1\<close>, the call to the extraction API throws, and the answer of the router
  is a 500 without a \<^verbatim>\<open>Set-Cookie\<close> header.
\<close>

theorem allowed_trial_without_cookie:
  "(case guardExtract testPlatform (extractRequest None []) testEnv 0 of
      Inr (Allowed (Trial c) (Some h)) \<Rightarrow>
        c = 1 \<and> h ''Set-Cookie''
                 = Some ''trial=1; Max-Age=604800; Path=/; HttpOnly; SameSite=None; Secure''
    | _ \<Rightarrow> False)
   \<and> parseFormData (extractRequest None []) = Inr ([], FString [])
   \<and> rstatus (fst (fetch testPlatform (extractRequest None []) testEnv 0 0 zeroBytes)) = 500
   \<and> rheaders (fst (fetch testPlatform (extractRequest None []) testEnv 0 0 zeroBytes)) ''Set-Cookie''
      = None
   \<and> snd (snd (fetch testPlatform (extractRequest None []) testEnv 0 0 zeroBytes))
      = [buildContent [] []]"
  by code_simp

subsection \<open>The trial cookie read back\<close>

lemma digit_char: "0 \<le> d \<Longrightarrow> d < 10 \<Longrightarrow> isDigit (char_of (48 + d)) \<and> charCode (char_of (48 + d)) = 48 + d"
  by (simp add: isDigit_def charCode_char_of)

lemma natToString_digits: "0 \<le> n \<Longrightarrow> list_all isDigit (natToString n) \<and> natToString n \<noteq> []"
proof (induction n rule: natToString.induct)
  case (1 n)
  show ?case
  proof (cases "n < 10")
    case True
    with 1(2) show ?thesis
      by (simp add: natToString.simps [of n] digit_char)
  next
    case False
    then have "0 \<le> n div 10" by simp
    with 1(1) False have "list_all isDigit (natToString (n div 10))" by simp
    moreover have "isDigit (char_of (48 + n mod 10))"
      by (intro digit_char [THEN conjunct1]) simp_all
    ultimately show ?thesis
      using False by (simp add: natToString.simps [of n])
  qed
qed

lemma foldl_digits_snoc:
  "foldl (\<lambda>acc c. 10 * acc + (charCode c - 48)) a (xs @ [c])
   = 10 * foldl (\<lambda>acc c. 10 * acc + (charCode c - 48)) a xs + (charCode c - 48)"
  by simp

lemma digitsValue_natToString: "0 \<le> n \<Longrightarrow> digitsValue (natToString n) = n"
proof (induction n rule: natToString.induct)
  case (1 n)
  show ?case
  proof (cases "n < 10")
    case True
    with 1(2) show ?thesis
      by (simp add: natToString.simps [of n] digitsValue_def digit_char)
  next
    case False
    then have "0 \<le> n div 10" by simp
    with 1(1) False have ih: "digitsValue (natToString (n div 10)) = n div 10" by simp
    have d: "charCode (char_of (48 + n mod 10)) = 48 + n mod 10"
      by (intro digit_char [THEN conjunct2]) simp_all
    have "digitsValue (natToString n) = 10 * digitsValue (natToString (n div 10)) + n mod 10"
      using False by (simp add: natToString.simps [of n] digitsValue_def d)
    then show ?thesis
      using ih by simp
  qed
qed

lemma digit_facts:
  assumes "isDigit c"
  shows "\<not> isStrWhiteSpace c" and "c \<noteq> CHR ''+''" and "c \<noteq> CHR ''-''" and "c \<noteq> CHR ''%''"
    and "notSemicolon c" and "uriUnreserved c"
  using assms
  by (auto simp: isDigit_def isStrWhiteSpace_def charCode_def notSemicolon_def uriUnreserved_def)

lemma minus_facts:
  "\<not> isStrWhiteSpace (CHR ''-'')" "CHR ''-'' \<noteq> CHR ''%''" "notSemicolon (CHR ''-'')"
  "uriUnreserved (CHR ''-'')" "\<not> isDigit (CHR ''-'')"
  by (simp_all add: isStrWhiteSpace_def notSemicolon_def uriUnreserved_def isDigit_def charCode_def)

lemma takeWhile_all: "list_all Q xs \<Longrightarrow> takeWhile Q xs = xs"
  by (induction xs) auto

lemma parseInt_digits:
  assumes "list_all isDigit ds" and "ds \<noteq> []" and "digitsValue ds < 2 ^ 53" and "0 \<le> digitsValue ds"
  shows "parseInt ds = Num (digitsValue ds)" and "parseInt (CHR ''-'' # ds) = Num (- digitsValue ds)"
proof -
  obtain c cs where ds: "ds = c # cs"
    using assms(2) by (cases ds) auto
  with assms(1) have c: "isDigit c" by simp
  have tw: "takeWhile isDigit ds = ds"
    using assms(1) by (rule takeWhile_all)
  have dw: "dropWhile isStrWhiteSpace ds = ds"
    using c digit_facts(1) by (simp add: ds)
  have tn: "toNumber (digitsValue ds) = Num (digitsValue ds)"
    using assms(3,4) by (simp add: toNumber_def Let_def roundNat_small)
  have tn': "toNumber (- digitsValue ds) = Num (- digitsValue ds)"
    using assms(3,4) by (simp add: toNumber_def Let_def roundNat_small)
  have tw': "takeWhile isDigit cs = cs"
    using assms(1) by (intro takeWhile_all) (simp add: ds)
  show "parseInt ds = Num (digitsValue ds)"
    unfolding parseInt_def dw
    using c digit_facts(2,3) [OF c] tn by (simp add: ds Let_def tw')
  show "parseInt (CHR ''-'' # ds) = Num (- digitsValue ds)"
    unfolding parseInt_def
    using minus_facts(1) tn' assms(2) by (simp add: Let_def tw)
qed

lemma parseInt_numToString:
  assumes "\<bar>n\<bar> < 2 ^ 53"
  shows "parseInt (numToString P n) = Num n"
proof (cases "n < 0")
  case True
  then have nn: "0 \<le> - n" by simp
  have "parseInt (CHR ''-'' # natToString (- n)) = Num (- digitsValue (natToString (- n)))"
    using natToString_digits [OF nn] assms True
    by (intro parseInt_digits) (simp_all add: digitsValue_natToString [OF nn])
  then show ?thesis
    using True assms by (simp add: numToString_def digitsValue_natToString [OF nn])
next
  case False
  then have nn: "0 \<le> n" by simp
  have "parseInt (natToString n) = Num (digitsValue (natToString n))"
    using natToString_digits [OF nn] assms False
    by (intro parseInt_digits) (simp_all add: digitsValue_natToString [OF nn])
  then show ?thesis
    using False assms by (simp add: numToString_def digitsValue_natToString [OF nn])
qed

lemma numToString_chars:
  assumes "\<bar>n\<bar> < 2 ^ 53"
  shows "list_all (\<lambda>c. isDigit c \<or> c = CHR ''-'') (numToString P n) \<and> numToString P n \<noteq> []"
proof (cases "n < 0")
  case True
  then have "0 \<le> - n" by simp
  from natToString_digits [OF this] True assms show ?thesis
    by (simp add: numToString_def list_all_iff)
next
  case False
  then have "0 \<le> n" by simp
  from natToString_digits [OF this] False assms show ?thesis
    by (simp add: numToString_def list_all_iff)
qed

lemma encodeURIComponent_plain:
  "list_all (\<lambda>c. isDigit c \<or> c = CHR ''-'') v \<Longrightarrow> encodeURIComponent v = v"
  by (induction v) (auto simp: encodeURIComponent_def encodeChar_def Let_def digit_facts minus_facts)

lemma cookieMatch_trial:
  "list_all (\<lambda>c. isDigit c \<or> c = CHR ''-'') v \<Longrightarrow> cookieMatch (''trial='' @ v) TRIAL_COOKIE = Some v"
proof -
  assume "list_all (\<lambda>c. isDigit c \<or> c = CHR ''-'') v"
  then have "list_all notSemicolon v"
    by (auto simp: list_all_iff digit_facts minus_facts)
  then have "takeWhile notSemicolon v = v"
    by (rule takeWhile_all)
  then show ?thesis
    by (simp add: cookieMatch_def TRIAL_COOKIE_def startsWith_def)
qed

lemma decodeURIComponent_plain:
  "list_all (\<lambda>c. isDigit c \<or> c = CHR ''-'') v \<Longrightarrow> decodeURIComponent P v = Inr v"
proof -
  assume "list_all (\<lambda>c. isDigit c \<or> c = CHR ''-'') v"
  then have "CHR ''%'' \<notin> set v"
    using digit_facts(4) by (auto simp: list_all_iff)
  then show ?thesis
    by (simp add: decodeURIComponent_def)
qed

text \<open>
  The trial cookie that the guard writes for a count is read back as that count, for
  every count of magnitude below \<open>2^53\<close>.
\<close>

lemma trial_cookie_roundtrip:
  assumes "\<bar>n\<bar> < 2 ^ 53"
  shows "readTrialCookie P
           (req\<lparr>cookie_header := Some (''trial='' @ encodeURIComponent (numToString P n))\<rparr>)
         = Inr n"
proof -
  define v where "v = numToString P n"
  have chars: "list_all (\<lambda>c. isDigit c \<or> c = CHR ''-'') v" and ne: "v \<noteq> []"
    using numToString_chars [OF assms, of P] by (simp_all add: v_def)
  have "getCookie P (req\<lparr>cookie_header := Some (''trial='' @ encodeURIComponent v)\<rparr>) TRIAL_COOKIE
      = Inr (Some v)"
    using cookieMatch_trial [OF chars]
    by (simp add: getCookie_def encodeURIComponent_plain [OF chars] decodeURIComponent_plain [OF chars])
  moreover have "parseInt v = Num n"
    unfolding v_def using assms by (rule parseInt_numToString)
  ultimately show ?thesis
    using ne by (simp add: readTrialCookie_def v_def)
qed

lemma hashPassword_is_base64:
  "hashPasswordPBKDF2 P pw s it = Inr derived \<Longrightarrow> \<exists>bits. derived = btoa bits"
  by (auto simp: hashPasswordPBKDF2_def split: sum.splits)

subsection \<open>Further facts about login and the trial\<close>

text \<open>
  A stored \<^verbatim>\<open>hash\<close> that contains a dollar sign, as the tool's does, never equals a
  derived key, whatever the salt and the iteration count of the record are.
\<close>

lemma login_rejects_dollar_hash:
  assumes "json_body req = Inr (LoginBody (Some u) (Some pw))"
    and "kvGet P env (''user:'' @ trim u) = Inr (Some d)"
    and "hash d = Some h" and "CHR ''$'' \<in> set h"
  shows "rstatus (fst (handleLogin P req env now now' rnd)) \<noteq> 200"
proof (cases "hashPasswordPBKDF2 P pw (salt d) (iterations d)")
  case (Inl e)
  with assms(1,2) show ?thesis
    by (simp add: handleLogin_def Let_def bad_status caught_status invalid_status)
next
  case (Inr derived)
  then obtain bits where "derived = btoa bits"
    using hashPassword_is_base64 by blast
  with assms(3,4) have "hash d \<noteq> Some derived"
    using btoa_no_dollar by auto
  with assms(1,2) Inr show ?thesis
    by (simp add: handleLogin_def Let_def bad_status caught_status invalid_status)
qed

text \<open>
  Four requests in a row without a session, each carrying the cookie of the answer
  before: counts 1, 2 and 3 are issued, and the fourth request is rejected.
\<close>

lemma trial_scenario:
  "(case guardExtract testPlatform (extractRequest None (images 1)) testEnv 0 of
      Inr (Allowed (Trial c) (Some h)) \<Rightarrow>
        c = 1 \<and> h ''Set-Cookie'' = Some ''trial=1; Max-Age=604800; Path=/; HttpOnly; SameSite=None; Secure''
    | _ \<Rightarrow> False)
   \<and> (case guardExtract testPlatform (extractRequest (Some ''trial=1'') (images 1)) testEnv 0 of
      Inr (Allowed (Trial c) (Some h)) \<Rightarrow>
        c = 2 \<and> h ''Set-Cookie'' = Some ''trial=2; Max-Age=604800; Path=/; HttpOnly; SameSite=None; Secure''
    | _ \<Rightarrow> False)
   \<and> (case guardExtract testPlatform (extractRequest (Some ''trial=2'') (images 1)) testEnv 0 of
      Inr (Allowed (Trial c) (Some h)) \<Rightarrow>
        c = 3 \<and> h ''Set-Cookie'' = Some ''trial=3; Max-Age=604800; Path=/; HttpOnly; SameSite=None; Secure''
    | _ \<Rightarrow> False)
   \<and> (case guardExtract testPlatform (extractRequest (Some ''trial=3'') (images 1)) testEnv 0 of
      Inr (Denied r) \<Rightarrow> rstatus r = 429 \<and> rheaders r ''Set-Cookie'' = None
    | _ \<Rightarrow> False)"
  by code_simp

end
